theory Spec2Isabelle
  imports Main "HOL-Library.Sublist"
begin

section \<open>JavaScript strings\<close>

text \<open>
  A JavaScript string is a sequence of code units. It is modelled as a \<open>string\<close>
  (a list of \<open>char\<close>): one \<open>char\<close> stands for one code unit in the range
  U+0000 .. U+00FF. The built-in string methods the pages use are written out below with
  the meaning ECMAScript gives them on that range.
\<close>

text \<open>
  The \<open>WhiteSpace\<close> and \<open>LineTerminator\<close> code units, which \<open>String.prototype.trim\<close>
  removes: TAB, LF, VT, FF, CR, SPACE and NO-BREAK SPACE (the others lie beyond U+00FF).
\<close>

definition is_white_space :: "char \<Rightarrow> bool" where
  "is_white_space c \<longleftrightarrow>
     c \<in> set [CHR 0x09, CHR 0x0A, CHR 0x0B, CHR 0x0C, CHR 0x0D, CHR 0x20, CHR 0xA0]"

text \<open>\<open>s.trim()\<close>: \<open>s\<close> without its leading and trailing white space.\<close>

definition trim :: "string \<Rightarrow> string" where
  "trim s = rev (dropWhile is_white_space (rev (dropWhile is_white_space s)))"

text \<open>
  \<open>s.split(sep)\<close> for a separator of one code unit: the fragments between the
  occurrences of \<open>sep\<close>; the empty string splits into one empty fragment.
\<close>

fun split_on :: "char \<Rightarrow> string \<Rightarrow> string list" where
  "split_on sep [] = [[]]"
| "split_on sep (c # cs) =
     (if c = sep then [] # split_on sep cs
      else (case split_on sep cs of
              [] \<Rightarrow> [[c]]
            | w # ws \<Rightarrow> (c # w) # ws))"

text \<open>\<open>Boolean(s)\<close> for a string: every string but the empty one is truthy.\<close>

definition Boolean :: "string \<Rightarrow> bool" where
  "Boolean s \<longleftrightarrow> s \<noteq> []"

text \<open>\<open>s.includes(sub)\<close>: \<open>sub\<close> occurs in \<open>s\<close> as a run of consecutive code units.\<close>

fun includes_str :: "string \<Rightarrow> string \<Rightarrow> bool" where
  "includes_str [] sub = (sub = [])"
| "includes_str (c # cs) sub = (take (length sub) (c # cs) = sub \<or> includes_str cs sub)"

text \<open>\<open>parts.join('')\<close> with the empty separator: the parts one after the other.\<close>

definition join :: "string list \<Rightarrow> string" where
  "join parts = concat parts"

section \<open>The notes writer page\<close>

subsection \<open>Data\<close>

text \<open>
  The parameter \<open>context: { unitTitle: string }\<close> of the prompt builder, and the
  page's \<open>FormData\<close>, which has the field \<open>unitTitle\<close> too and the field \<open>topics\<close>.
\<close>

record prompt_context =
  unitTitle :: string

record FormData = prompt_context +
  topics :: string

record TopicContent =
  topic :: string
  content :: string

text \<open>The options object passed to \<open>toast\<close>.\<close>

record toast_options =
  title :: string
  description :: string
  variant :: string

text \<open>
  A value thrown by the generation call, as the handler in \<open>handleSubmit\<close> tells
  them apart: an instance of \<open>Error\<close> (with its message), another object with a
  \<open>message\<close> property (with \<open>String(message)\<close>), or any other value \<open>v\<close> (with
  \<open>String(v)\<close>).
\<close>

datatype js_error =
  Error string
| Object_with_message string
| Other_value string

text \<open>
  The state of the component: the key that \<open>useApiKey\<close> provides (\<open>None\<close> when there
  is none), the values held with \<open>useSessionStorage\<close> and \<open>useState\<close>, and what the
  page has put out so far: the toasts raised and the values written with
  \<open>console.error\<close>.
\<close>

record NotesWriter =
  geminiKey :: "string option"
  formData :: FormData
  generatedNotes :: string
  topicContents :: "TopicContent list"
  isLoading :: bool
  showLoadingModal :: bool
  currentSection :: "string option"
  completedSections :: "string list"
  showSuccessModal :: bool
  showApiKeyModal :: bool
  toasts :: "toast_options list"
  console :: "js_error list"

subsection \<open>The text-generation service\<close>

text \<open>
  The three awaited steps \<open>model.generateContent(prompt)\<close>, \<open>result.response\<close> and
  \<open>response.text()\<close> stand inside one \<open>try\<close> block; together they either yield the
  text of the response (\<open>Inr\<close>) or throw (\<open>Inl\<close>). The service is outside the
  program, so it is a parameter: \<open>g k prompt\<close> is how the call number \<open>k\<close> of a run
  (counted from 0) settles when it is made with \<open>prompt\<close>.
\<close>

type_synonym outcome = "js_error + string"

type_synonym gemini = "nat \<Rightarrow> string \<Rightarrow> outcome"

text \<open>What passes between the page and the service: a call made, a call settled.\<close>

datatype net_event =
  Request string
| Settled outcome

subsection \<open>The prompt for one topic\<close>

definition generateTopicPrompt :: "string \<Rightarrow> 'a prompt_context_scheme \<Rightarrow> string" where
  \<open>generateTopicPrompt topic' context' =
     ''Generate comprehensive study notes for the topic "'' @ topic' @
     ''" within the unit "'' @ unitTitle context' @
     ''".\<newline>'' @
     ''Use markdown formatting for better readability and structure.\<newline>'' @
     ''\<newline>'' @
     ''Please provide detailed, well-structured content that includes:\<newline>'' @
     ''1. A brief overview of the topic\<newline>'' @
     ''2. Key concepts and principles\<newline>'' @
     ''3. Examples and illustrations where applicable\<newline>'' @
     ''4. Important points to remember\<newline>'' @
     ''5. Common misconceptions or challenges\<newline>'' @
     ''6. Practice questions or exercises (if relevant)\<newline>'' @
     ''\<newline>'' @
     ''Format the content using markdown with:\<newline>'' @
     ''1. Clear headings using ### for sub-topics\<newline>'' @
     ''2. Bullet points and numbered lists where appropriate\<newline>'' @
     ''3. **Bold** and *italic* text for emphasis\<newline>'' @
     ''4. Code blocks with proper syntax highlighting (if needed)\<newline>'' @
     ''5. Tables where relevant\<newline>'' @
     ''6. > Blockquotes for important notes or definitions\<newline>'' @
     ''\<newline>'' @
     ''Structure your response with these sections:\<newline>'' @
     ''### Overview\<newline>'' @
     ''[Brief overview of the topic]\<newline>'' @
     ''\<newline>'' @
     ''### Key Concepts\<newline>'' @
     ''[Explanation of main concepts]\<newline>'' @
     ''\<newline>'' @
     ''### Examples\<newline>'' @
     ''[Practical examples]\<newline>'' @
     ''\<newline>'' @
     ''### Important Points\<newline>'' @
     ''[Key takeaways]\<newline>'' @
     ''\<newline>'' @
     ''If applicable, also include:\<newline>'' @
     ''### Common Misconceptions\<newline>'' @
     ''### Practice Questions\<newline>'' @
     ''\<newline>'' @
     ''DO NOT include a heading for the topic itself, as I will add it separately.\<newline>'' @
     ''Start directly with the content.''\<close>

subsection \<open>\<open>handleSubmit\<close>\<close>

text \<open>The toasts of \<open>handleSubmit\<close>, but for the one of its outer \<open>catch\<close> (see below).\<close>

definition toast_missing_information :: toast_options where
  "toast_missing_information =
     \<lparr>title = ''Missing Information'',
      description = ''Please enter both unit title and topics.'',
      variant = ''destructive''\<rparr>"

definition toast_invalid_api_key :: toast_options where
  "toast_invalid_api_key =
     \<lparr>title = ''Invalid API Key'',
      description = ''Please check your Gemini API key and try again.'',
      variant = ''destructive''\<rparr>"

definition toast_generation_failed :: toast_options where
  "toast_generation_failed =
     \<lparr>title = ''Generation Failed'',
      description = ''Failed to generate notes. Please try again.'',
      variant = ''destructive''\<rparr>"

text \<open>
  \<open>formData.topics.split(',').map(topic => topic.trim()).filter(Boolean)\<close>: the
  list of topics a run works through.
\<close>

definition split_topics :: "string \<Rightarrow> string list" where
  "split_topics s = filter Boolean (map trim (split_on (CHR '','') s))"

text \<open>
  The handler of the inner \<open>try\<close>: the thrown value goes to the console, its message
  decides between the two toasts, and a message that mentions the API key opens the
  key dialog as well. Nothing is thrown on, and nothing about the topic is kept.
\<close>

definition errorMessage :: "js_error \<Rightarrow> string" where
  "errorMessage error =
     (case error of
        Error m \<Rightarrow> m
      | Object_with_message m \<Rightarrow> m
      | Other_value v \<Rightarrow> v)"

definition catch_generation_error :: "js_error \<Rightarrow> NotesWriter \<Rightarrow> NotesWriter" where
  "catch_generation_error error s =
     (let s1 = s\<lparr>console := console s @ [error]\<rparr>
      in if includes_str (errorMessage error) ''API key''
         then s1\<lparr>toasts := toasts s1 @ [toast_invalid_api_key], showApiKeyModal := True\<rparr>
         else s1\<lparr>toasts := toasts s1 @ [toast_generation_failed]\<rparr>)"

text \<open>
  The loop \<open>for (const topic of topics)\<close>. A \<open>run\<close> holds what the loop works on:
  the component's state, the two local arrays \<open>allContent\<close> and
  \<open>newTopicContents\<close>, and the traffic with the service so far. \<open>fd\<close> is the
  \<open>formData\<close> the handler closed over, \<open>k\<close> the number of the next call.
\<close>

record run =
  ui :: NotesWriter
  allContent :: "string list"
  newTopicContents :: "TopicContent list"
  traffic :: "net_event list"

fun for_topics :: "gemini \<Rightarrow> FormData \<Rightarrow> nat \<Rightarrow> string list \<Rightarrow> run \<Rightarrow> run" where
  "for_topics g fd k [] r = r"
| "for_topics g fd k (topic' # rest) r =
     (let r1 = r\<lparr>ui := (ui r)\<lparr>currentSection := Some topic'\<rparr>\<rparr>;
          prompt = generateTopicPrompt topic' \<lparr>unitTitle = unitTitle fd\<rparr>;
          r2 = r1\<lparr>traffic := traffic r1 @ [Request prompt]\<rparr>;
          result = g k prompt;
          r3 = r2\<lparr>traffic := traffic r2 @ [Settled result]\<rparr>
      in for_topics g fd (Suc k) rest
           (case result of
              Inr content' \<Rightarrow>
                r3\<lparr>allContent :=
                      allContent r3 @ [''\<newline>\<newline>## '' @ topic' @ ''\<newline>\<newline>'' @ content'],
                    newTopicContents :=
                      newTopicContents r3 @ [\<lparr>topic = topic', content = content'\<rparr>],
                    ui := (ui r3)\<lparr>completedSections := completedSections (ui r3) @ [topic']\<rparr>\<rparr>
            | Inl error \<Rightarrow> r3\<lparr>ui := catch_generation_error error (ui r3)\<rparr>))"

text \<open>
  \<open>handleSubmit\<close>, from the state \<open>s\<close> of the render it was created in: the state
  it leaves and the traffic it caused.

  Creating the client (\<open>new GoogleGenerativeAI(geminiKey)\<close>, \<open>getGenerativeModel\<close> with
  a fixed model name) only stores its arguments, every throw of a generation call is
  caught by the inner handler, and the setters, \<open>toast\<close> and \<open>join\<close> do not throw.
  So the outer \<open>catch\<close> is never entered; the outer \<open>try\<close> and its \<open>finally\<close> are the
  last two steps below.
\<close>

definition handleSubmit :: "gemini \<Rightarrow> NotesWriter \<Rightarrow> NotesWriter \<times> net_event list" where
  "handleSubmit g s =
     (if \<not> (case geminiKey s of None \<Rightarrow> False | Some key \<Rightarrow> Boolean key)
      then (s\<lparr>showApiKeyModal := True\<rparr>, [])
      else if \<not> Boolean (unitTitle (formData s)) \<or> \<not> Boolean (topics (formData s))
      then (s\<lparr>toasts := toasts s @ [toast_missing_information]\<rparr>, [])
      else
        let s1 = s\<lparr>isLoading := True, showLoadingModal := True, topicContents := [],
                   completedSections := [], generatedNotes := []\<rparr>;
            topics' = split_topics (topics (formData s));
            r = for_topics g (formData s) 0 topics'
                  \<lparr>ui = s1,
                   allContent = [''# '' @ unitTitle (formData s) @ ''\<newline>''],
                   newTopicContents = [],
                   traffic = []\<rparr>;
            s2 = (ui r)\<lparr>generatedNotes := join (allContent r),
                        topicContents := newTopicContents r,
                        showSuccessModal := True\<rparr>
        in (s2\<lparr>isLoading := False, showLoadingModal := False, currentSection := None\<rparr>,
            traffic r))"

subsection \<open>The success dialog\<close>

text \<open>\<open>String(n)\<close> for a length: its decimal digits.\<close>

fun Number_toString :: "nat \<Rightarrow> string" where
  "Number_toString n =
     (if n < 10 then [''0123456789'' ! n]
      else Number_toString (n div 10) @ [''0123456789'' ! (n mod 10)])"

declare Number_toString.simps [simp del]

text \<open>
  The sentence \<open>SuccessModal\<close> renders: nothing while the dialog is closed, and
  otherwise the count of the stored topic contents inside a fixed sentence.
\<close>

definition SuccessModal :: "NotesWriter \<Rightarrow> string option" where
  "SuccessModal s =
     (if \<not> showSuccessModal s then None
      else Some (''Your study notes have been successfully generated with '' @
                 Number_toString (length (topicContents s)) @ '' topics.''))"

subsection \<open>The first render\<close>

text \<open>
  The state of the first render when nothing is stored for the session: the defaults
  given to \<open>useSessionStorage\<close> and \<open>useState\<close>.
\<close>

definition initial_NotesWriter :: "string option \<Rightarrow> NotesWriter" where
  "initial_NotesWriter key =
     \<lparr>geminiKey = key,
      formData = \<lparr>unitTitle = [], topics = []\<rparr>,
      generatedNotes = [],
      topicContents = [],
      isLoading = False,
      showLoadingModal = False,
      currentSection = None,
      completedSections = [],
      showSuccessModal = False,
      showApiKeyModal = False,
      toasts = [],
      console = []\<rparr>"

section \<open>The preview of the notes in a new tab\<close>

subsection \<open>\<open>JSON.stringify\<close> of a string\<close>

text \<open>
  \<open>JSON.stringify(s)\<close> for a string \<open>s\<close>: the code units of \<open>s\<close> between two double
  quotes, where the double quote and the backslash get a backslash in front,
  backspace, tab, line feed, form feed and carriage return become \<open>\b\<close>, \<open>\t\<close>, \<open>\n\<close>,
  \<open>\f\<close> and \<open>\r\<close>, any other code unit below U+0020 becomes \<open>\u00\<close> and its two
  lower-case hexadecimal digits, and every other code unit stands for itself.
\<close>

definition hex_digit :: "nat \<Rightarrow> char" where
  "hex_digit n = ''0123456789abcdef'' ! n"

definition QuoteJSONChar :: "char \<Rightarrow> string" where
  "QuoteJSONChar c =
     (if c = CHR 0x08 then [CHR 0x5C, CHR ''b'']
      else if c = CHR 0x09 then [CHR 0x5C, CHR ''t'']
      else if c = CHR 0x0A then [CHR 0x5C, CHR ''n'']
      else if c = CHR 0x0C then [CHR 0x5C, CHR ''f'']
      else if c = CHR 0x0D then [CHR 0x5C, CHR ''r'']
      else if c = CHR 0x22 then [CHR 0x5C, CHR 0x22]
      else if c = CHR 0x5C then [CHR 0x5C, CHR 0x5C]
      else if (of_char c :: nat) < 32
      then [CHR 0x5C, CHR ''u'', CHR ''0'', CHR ''0'',
            hex_digit (of_char c div 16), hex_digit (of_char c mod 16)]
      else [c])"

definition JSON_stringify :: "string \<Rightarrow> string" where
  "JSON_stringify s = [CHR 0x22] @ concat (map QuoteJSONChar s) @ [CHR 0x22]"

subsection \<open>The document \<open>handlePreviewInNewTab\<close> writes\<close>

text \<open>
  The template literal passed to \<open>document.write\<close>, cut into its parts: the text up
  to the title, the text from the end of the title to the opening of the body (the
  style sheet), the control bar with its two buttons, the container of the rendered
  notes up to the opening tag of the inline script, the text of the script before and
  after the place of the notes, and the rest from the closing tag of the script on.
\<close>

definition preview_head :: string where
  \<open>preview_head =
     ''\<newline>'' @
     ''        <html>\<newline>'' @
     ''          <head>\<newline>'' @
     ''            <meta charset="UTF-8">\<newline>'' @
     ''            <meta name="viewport" content="width=device-width, initial-scale=1.0, maximum-scale=1.0, user-scalable=no">\<newline>'' @
     ''            <title>''\<close>

definition preview_style :: string where
  \<open>preview_style =
     ''</title>\<newline>'' @
     ''            <link rel="stylesheet" href="https://cdnjs.cloudflare.com/ajax/libs/github-markdown-css/5.2.0/github-markdown.min.css">\<newline>'' @
     ''            <link rel="stylesheet" href="https://cdnjs.cloudflare.com/ajax/libs/font-awesome/6.4.0/css/all.min.css">\<newline>'' @
     ''            <style>\<newline>'' @
     ''              body {\<newline>'' @
     ''                background-color: #ffffff;\<newline>'' @
     ''                margin: 0;\<newline>'' @
     ''                padding: 0;\<newline>'' @
     ''                color: #24292e;\<newline>'' @
     ''                font-family: -apple-system, BlinkMacSystemFont, "Segoe UI", Helvetica, Arial, sans-serif;\<newline>'' @
     ''                line-height: 1.6;\<newline>'' @
     ''              }\<newline>'' @
     ''              .control-bar {\<newline>'' @
     ''                position: sticky;\<newline>'' @
     ''                top: 0;\<newline>'' @
     ''                background-color: #f6f8fa;\<newline>'' @
     ''                border-bottom: 1px solid #e1e4e8;\<newline>'' @
     ''                padding: 12px 16px;\<newline>'' @
     ''                display: flex;\<newline>'' @
     ''                justify-content: space-between;\<newline>'' @
     ''                align-items: center;\<newline>'' @
     ''                z-index: 100;\<newline>'' @
     ''                box-shadow: 0 1px 2px rgba(0,0,0,0.1);\<newline>'' @
     ''              }\<newline>'' @
     ''              .instruction {\<newline>'' @
     ''                font-size: 14px;\<newline>'' @
     ''                color: #57606a;\<newline>'' @
     ''                margin-right: 10px;\<newline>'' @
     ''              }\<newline>'' @
     ''              .buttons {\<newline>'' @
     ''                display: flex;\<newline>'' @
     ''                gap: 8px;\<newline>'' @
     ''              }\<newline>'' @
     ''              .btn {\<newline>'' @
     ''                display: inline-flex;\<newline>'' @
     ''                align-items: center;\<newline>'' @
     ''                justify-content: center;\<newline>'' @
     ''                gap: 6px;\<newline>'' @
     ''                background-color: #ffffff;\<newline>'' @
     ''                border: 1px solid #d1d5da;\<newline>'' @
     ''                border-radius: 6px;\<newline>'' @
     ''                padding: 6px 12px;\<newline>'' @
     ''                font-size: 14px;\<newline>'' @
     ''                font-weight: 500;\<newline>'' @
     ''                color: #24292e;\<newline>'' @
     ''                cursor: pointer;\<newline>'' @
     ''                transition: all 0.2s;\<newline>'' @
     ''              }\<newline>'' @
     ''              .btn:hover {\<newline>'' @
     ''                background-color: #f3f4f6;\<newline>'' @
     ''              }\<newline>'' @
     ''              .btn i {\<newline>'' @
     ''                font-size: 14px;\<newline>'' @
     ''              }\<newline>'' @
     ''              .btn-success {\<newline>'' @
     ''                background-color: #2ea44f;\<newline>'' @
     ''                color: white;\<newline>'' @
     ''                border-color: #2ea44f;\<newline>'' @
     ''              }\<newline>'' @
     ''              .btn-success:hover {\<newline>'' @
     ''                background-color: #2c974b;\<newline>'' @
     ''              }\<newline>'' @
     ''              .markdown-body {\<newline>'' @
     ''                box-sizing: border-box;\<newline>'' @
     ''                min-width: 200px;\<newline>'' @
     ''                max-width: 980px;\<newline>'' @
     ''                margin: 0 auto;\<newline>'' @
     ''                padding: 45px;\<newline>'' @
     ''                background-color: #ffffff;\<newline>'' @
     ''                color: #24292e;\<newline>'' @
     ''                border: 1px solid #e1e4e8;\<newline>'' @
     ''                border-radius: 6px;\<newline>'' @
     ''                margin-top: 20px;\<newline>'' @
     ''                margin-bottom: 40px;\<newline>'' @
     ''              }\<newline>'' @
     ''              .markdown-body h1, \<newline>'' @
     ''              .markdown-body h2, \<newline>'' @
     ''              .markdown-body h3, \<newline>'' @
     ''              .markdown-body h4, \<newline>'' @
     ''              .markdown-body h5, \<newline>'' @
     ''              .markdown-body h6,\<newline>'' @
     ''              .markdown-body p,\<newline>'' @
     ''              .markdown-body li,\<newline>'' @
     ''              .markdown-body a,\<newline>'' @
     ''              .markdown-body code,\<newline>'' @
     ''              .markdown-body blockquote {\<newline>'' @
     ''                color: #24292e;\<newline>'' @
     ''              }\<newline>'' @
     ''              .markdown-body pre {\<newline>'' @
     ''                background-color: #f6f8fa;\<newline>'' @
     ''              }\<newline>'' @
     ''              .markdown-body code {\<newline>'' @
     ''                background-color: #f6f8fa;\<newline>'' @
     ''                color: #24292e;\<newline>'' @
     ''                word-wrap: break-word;\<newline>'' @
     ''                white-space: pre-wrap;\<newline>'' @
     ''              }\<newline>'' @
     ''              .markdown-body table {\<newline>'' @
     ''                border-collapse: collapse;\<newline>'' @
     ''                display: block;\<newline>'' @
     ''                width: 100%;\<newline>'' @
     ''                overflow-x: auto;\<newline>'' @
     ''              }\<newline>'' @
     ''              .markdown-body table th,\<newline>'' @
     ''              .markdown-body table td {\<newline>'' @
     ''                border: 1px solid #e1e4e8;\<newline>'' @
     ''                padding: 6px 13px;\<newline>'' @
     ''              }\<newline>'' @
     ''              .markdown-body table tr {\<newline>'' @
     ''                background-color: #ffffff;\<newline>'' @
     ''                border-top: 1px solid #e1e4e8;\<newline>'' @
     ''              }\<newline>'' @
     ''              .markdown-body table tr:nth-child(2n) {\<newline>'' @
     ''                background-color: #f6f8fa;\<newline>'' @
     ''              }\<newline>'' @
     ''              .markdown-body img {\<newline>'' @
     ''                max-width: 100%;\<newline>'' @
     ''                height: auto;\<newline>'' @
     ''                display: block;\<newline>'' @
     ''                margin: 1rem auto;\<newline>'' @
     ''              }\<newline>'' @
     ''              .markdown-body blockquote {\<newline>'' @
     ''                border-left: 4px solid #dfe2e5;\<newline>'' @
     ''                padding: 0 1em;\<newline>'' @
     ''                color: #6a737d;\<newline>'' @
     ''              }\<newline>'' @
     ''              @media (max-width: 767px) {\<newline>'' @
     ''                .markdown-body {\<newline>'' @
     ''                  padding: 20px;\<newline>'' @
     ''                  margin: 10px;\<newline>'' @
     ''                  border-radius: 4px;\<newline>'' @
     ''                  font-size: 16px;\<newline>'' @
     ''                  width: auto;\<newline>'' @
     ''                }\<newline>'' @
     ''                .markdown-body h1 {\<newline>'' @
     ''                  font-size: 1.8rem;\<newline>'' @
     ''                  word-break: break-word;\<newline>'' @
     ''                }\<newline>'' @
     ''                .markdown-body h2 {\<newline>'' @
     ''                  font-size: 1.5rem;\<newline>'' @
     ''                }\<newline>'' @
     ''                .markdown-body h3 {\<newline>'' @
     ''                  font-size: 1.3rem;\<newline>'' @
     ''                }\<newline>'' @
     ''                .markdown-body pre {\<newline>'' @
     ''                  padding: 12px;\<newline>'' @
     ''                  border-radius: 4px;\<newline>'' @
     ''                }\<newline>'' @
     ''                .control-bar {\<newline>'' @
     ''                  padding: 10px;\<newline>'' @
     ''                  flex-direction: column;\<newline>'' @
     ''                  align-items: flex-start;\<newline>'' @
     ''                }\<newline>'' @
     ''                .instruction {\<newline>'' @
     ''                  font-size: 13px;\<newline>'' @
     ''                  margin-bottom: 10px;\<newline>'' @
     ''                  width: 100%;\<newline>'' @
     ''                }\<newline>'' @
     ''                .buttons {\<newline>'' @
     ''                  width: 100%;\<newline>'' @
     ''                  justify-content: space-between;\<newline>'' @
     ''                }\<newline>'' @
     ''                .btn {\<newline>'' @
     ''                  padding: 8px 12px;\<newline>'' @
     ''                  font-size: 14px;\<newline>'' @
     ''                  flex: 1;\<newline>'' @
     ''                  justify-content: center;\<newline>'' @
     ''                }\<newline>'' @
     ''                .btn i {\<newline>'' @
     ''                  margin-right: 4px;\<newline>'' @
     ''                }\<newline>'' @
     ''              }\<newline>'' @
     ''              /* Override any dark mode settings */\<newline>'' @
     ''              html, body {\<newline>'' @
     ''                background-color: #ffffff !important;\<newline>'' @
     ''                color: #24292e !important;\<newline>'' @
     ''              }\<newline>'' @
     ''              /* Hide control bar when printing */\<newline>'' @
     ''              @media print {\<newline>'' @
     ''                .control-bar {\<newline>'' @
     ''                  display: none !important;\<newline>'' @
     ''                }\<newline>'' @
     ''                .markdown-body {\<newline>'' @
     ''                  margin-top: 0;\<newline>'' @
     ''                  padding-top: 0;\<newline>'' @
     ''                  border: none;\<newline>'' @
     ''                  max-width: 100%;\<newline>'' @
     ''                }\<newline>'' @
     ''                body {\<newline>'' @
     ''                  background-color: white;\<newline>'' @
     ''                  -webkit-print-color-adjust: exact;\<newline>'' @
     ''                  print-color-adjust: exact;\<newline>'' @
     ''                }\<newline>'' @
     ''              }\<newline>'' @
     ''            </style>\<newline>'' @
     ''          </head>\<newline>'' @
     ''          <body>\<newline>''\<close>

definition control_bar_open :: string where
  \<open>control_bar_open =
     ''            <div class="control-bar">\<newline>'' @
     ''              <div class="instruction">\<newline>'' @
     ''                <i class="fas fa-info-circle"></i> Copy and paste this in Google Docs or Word to preserve formatting. Google Docs is recommended.\<newline>'' @
     ''              </div>\<newline>'' @
     ''              <div class="buttons">\<newline>'' @
     ''                ''\<close>

definition copy_button :: string where
  \<open>copy_button =
     ''<button id="copyBtn" class="btn">\<newline>'' @
     ''                  <i class="fas fa-copy"></i> Copy\<newline>'' @
     ''                </button>''\<close>

definition control_bar_between :: string where
  \<open>control_bar_between =
     ''\<newline>'' @
     ''                ''\<close>

definition print_button :: string where
  \<open>print_button =
     ''<button id="printBtn" class="btn">\<newline>'' @
     ''                  <i class="fas fa-download"></i> Download\<newline>'' @
     ''                </button>''\<close>

definition control_bar_close :: string where
  \<open>control_bar_close =
     ''\<newline>'' @
     ''              </div>\<newline>'' @
     ''            </div>\<newline>''\<close>

definition preview_content :: string where
  \<open>preview_content =
     ''            <div class="markdown-body">\<newline>'' @
     ''              <div id="content"></div>\<newline>'' @
     ''            </div>\<newline>'' @
     ''            <script src="https://cdn.jsdelivr.net/npm/marked/marked.min.js"></script>\<newline>'' @
     ''            <script>''\<close>

definition script_before :: string where
  \<open>script_before =
     ''\<newline>'' @
     ''              // Parse and render markdown\<newline>'' @
     ''              marked.setOptions({\<newline>'' @
     ''                breaks: true,\<newline>'' @
     ''                gfm: true\<newline>'' @
     ''              });\<newline>'' @
     ''              const markdownContent = ''\<close>

definition script_after :: string where
  \<open>script_after =
     '';\<newline>'' @
     ''              document.getElementById('content').innerHTML = marked.parse(markdownContent);\<newline>'' @
     ''              \<newline>'' @
     ''              // Copy button functionality - copy the rendered HTML content\<newline>'' @
     ''              document.getElementById('copyBtn').addEventListener('click', async () => {\<newline>'' @
     ''                try {\<newline>'' @
     ''                  // Get the rendered HTML content\<newline>'' @
     ''                  const contentElement = document.querySelector('.markdown-body');\<newline>'' @
     ''                  \<newline>'' @
     ''                  // Create a range and selection\<newline>'' @
     ''                  const range = document.createRange();\<newline>'' @
     ''                  range.selectNode(contentElement);\<newline>'' @
     ''                  \<newline>'' @
     ''                  // Select the content\<newline>'' @
     ''                  const selection = window.getSelection();\<newline>'' @
     ''                  selection.removeAllRanges();\<newline>'' @
     ''                  selection.addRange(range);\<newline>'' @
     ''                  \<newline>'' @
     ''                  // Execute copy command\<newline>'' @
     ''                  document.execCommand('copy');\<newline>'' @
     ''                  \<newline>'' @
     ''                  // Clear selection\<newline>'' @
     ''                  selection.removeAllRanges();\<newline>'' @
     ''                  \<newline>'' @
     ''                  // Update button to show success\<newline>'' @
     ''                  const btn = document.getElementById('copyBtn');\<newline>'' @
     ''                  btn.innerHTML = '<i class="fas fa-check"></i> Copied!';\<newline>'' @
     ''                  btn.classList.add('btn-success');\<newline>'' @
     ''                  setTimeout(() => {\<newline>'' @
     ''                    btn.innerHTML = '<i class="fas fa-copy"></i> Copy';\<newline>'' @
     ''                    btn.classList.remove('btn-success');\<newline>'' @
     ''                  }, 2000);\<newline>'' @
     ''                } catch (err) {\<newline>'' @
     ''                  console.error('Failed to copy content:', err);\<newline>'' @
     ''                }\<newline>'' @
     ''              });\<newline>'' @
     ''              \<newline>'' @
     ''              // Print button functionality (renamed to Download but keeps print functionality)\<newline>'' @
     ''              document.getElementById('printBtn').addEventListener('click', () => {\<newline>'' @
     ''                window.print();\<newline>'' @
     ''              });\<newline>'' @
     ''            ''\<close>

definition preview_end :: string where
  \<open>preview_end =
     ''</script>\<newline>'' @
     ''          </body>\<newline>'' @
     ''        </html>\<newline>'' @
     ''      ''\<close>

text \<open>
  The document up to and including the opening tag of the inline script. The title is
  \<open>formData.unitTitle || 'Study Notes Preview'\<close>.
\<close>

definition preview_before_script :: "NotesWriter \<Rightarrow> string" where
  "preview_before_script s =
     preview_head @
     (if Boolean (unitTitle (formData s)) then unitTitle (formData s)
      else ''Study Notes Preview'') @
     preview_style @
     control_bar_open @ copy_button @ control_bar_between @ print_button @ control_bar_close @
     preview_content"

text \<open>
  The text the template puts between the tags of the inline script: the stored
  notes are spliced in as \<open>JSON.stringify(generatedNotes)\<close>.
\<close>

definition inline_script :: "NotesWriter \<Rightarrow> string" where
  "inline_script s = script_before @ JSON_stringify (generatedNotes s) @ script_after"

text \<open>
  \<open>handlePreviewInNewTab\<close>: what is written to the new window, or nothing when
  \<open>window.open\<close> gave no window (\<open>opened\<close> tells which).
\<close>

definition handlePreviewInNewTab :: "bool \<Rightarrow> NotesWriter \<Rightarrow> string option" where
  "handlePreviewInNewTab opened s =
     (if opened then Some (preview_before_script s @ inline_script s @ preview_end)
      else None)"

subsection \<open>How the browser reads the inline script\<close>

text \<open>
  The HTML parser ends the text of a script element at the first \<open></script\<close>, in
  upper or lower case, that is followed by white space, \<open>/\<close> or \<open>>\<close>, whatever
  the script means by it. (A text containing \<open><!--\<close> is read by further rules, which
  are left out here.) \<open>script_data rest\<close> is the text of the script element when
  \<open>rest\<close> is the document behind the opening tag of the script.
\<close>

definition script_end_tag_at :: "string \<Rightarrow> bool" where
  "script_end_tag_at s \<longleftrightarrow>
     8 < length s \<and>
     list_all2 (\<lambda>c (l, u). c = l \<or> c = u) (take 8 s) (zip ''</script'' ''</SCRIPT'') \<and>
     s ! 8 \<in> set [CHR 0x09, CHR 0x0A, CHR 0x0C, CHR 0x20, CHR ''/'', CHR ''>'']"

fun script_data :: "string \<Rightarrow> string" where
  "script_data [] = []"
| "script_data (c # cs) = (if script_end_tag_at (c # cs) then [] else c # script_data cs)"

text \<open>
  A string literal in double quotes, as JavaScript reads it: \<open>read_string_literal s\<close>
  is the value of the literal at the start of \<open>s\<close> and the text behind it, or \<open>None\<close>
  when \<open>s\<close> does not start with a literal this model reads (no closing quote, a line
  break inside, or an escape that is left out here: octal escapes, line
  continuations, \<open>\u{...}\<close> and code units beyond U+00FF).
\<close>

definition hex_value :: "char \<Rightarrow> nat option" where
  "hex_value c =
     map_of (zip ''0123456789abcdefABCDEF''
               [0, 1, 2, 3, 4, 5, 6, 7, 8, 9, 10, 11, 12, 13, 14, 15, 10, 11, 12, 13, 14, 15]) c"

text \<open>
  The code unit an escape sequence stands for, and how many characters the sequence
  takes behind its first character \<open>e\<close>.
\<close>

definition unescape :: "char \<Rightarrow> string \<Rightarrow> (char \<times> nat) option" where
  "unescape e rest =
     (if e = CHR ''b'' then Some (CHR 0x08, 0)
      else if e = CHR ''t'' then Some (CHR 0x09, 0)
      else if e = CHR ''n'' then Some (CHR 0x0A, 0)
      else if e = CHR ''v'' then Some (CHR 0x0B, 0)
      else if e = CHR ''f'' then Some (CHR 0x0C, 0)
      else if e = CHR ''r'' then Some (CHR 0x0D, 0)
      else if e = CHR ''u'' then
        (case map hex_value (take 4 rest) of
           [Some a, Some b, Some c, Some d] \<Rightarrow>
             if a = 0 \<and> b = 0 then Some (char_of (16 * c + d), 4) else None
         | _ \<Rightarrow> None)
      else if e = CHR ''x'' then
        (case map hex_value (take 2 rest) of
           [Some c, Some d] \<Rightarrow> Some (char_of (16 * c + d), 2)
         | _ \<Rightarrow> None)
      else if e \<in> set ''0123456789'' \<or> e = CHR 0x0A \<or> e = CHR 0x0D then None
      else Some (e, 0))"

fun read_string_characters :: "string \<Rightarrow> (string \<times> string) option" where
  "read_string_characters [] = None"
| "read_string_characters (c # cs) =
     (if c = CHR 0x22 then Some ([], cs)
      else if c = CHR 0x0A \<or> c = CHR 0x0D then None
      else if c = CHR 0x5C then
        (case cs of
           [] \<Rightarrow> None
         | e # rest \<Rightarrow>
             (case unescape e rest of
                None \<Rightarrow> None
              | Some (v, n) \<Rightarrow>
                  (case read_string_characters (drop n rest) of
                     None \<Rightarrow> None
                   | Some (value', behind) \<Rightarrow> Some (v # value', behind))))
      else
        (case read_string_characters cs of
           None \<Rightarrow> None
         | Some (value', behind) \<Rightarrow> Some (c # value', behind)))"

definition read_string_literal :: "string \<Rightarrow> (string \<times> string) option" where
  "read_string_literal s =
     (case s of
        [] \<Rightarrow> None
      | c # cs \<Rightarrow> if c = CHR 0x22 then read_string_characters cs else None)"

text \<open>
  The value the inline script gives its constant \<open>markdownContent\<close>, when the text of
  the script element is \<open>script\<close>: the literal behind \<open>const markdownContent = \<close>, if the
  script starts as the template does and a literal follows there.
\<close>

definition markdownContent :: "string \<Rightarrow> string option" where
  "markdownContent script =
     (if take (length script_before) script = script_before
      then map_option fst (read_string_literal (drop (length script_before) script))
      else None)"

section \<open>Form state and the browser session\<close>

text \<open>
  The \<open>sessionStorage\<close> of the tab, as far as the notes writer uses it: one slot for
  each of its keys \<open>notes-writer-form\<close>, \<open>notes-writer-generated\<close> and
  \<open>notes-writer-topics\<close>, \<open>None\<close> while nothing is stored under the key. A reload
  keeps the session and starts the page anew.
\<close>

record session =
  notes_writer_form :: "FormData option"
  notes_writer_generated :: "string option"
  notes_writer_topics :: "TopicContent list option"

text \<open>
  Modelled from the spec: the hook \<open>useSessionStorage\<close>, which the notes writer
  imports from \<open>../lib/useSessionStorage\<close>; that file is not among the sources. The
  spec has the form state "persisted across page reloads within a browser session":
  on the first render the hook yields what is stored under its key, or the initial
  value while nothing is stored there, and its setter sets the state and stores the
  value under the key.
\<close>

definition useSessionStorage :: "'a option \<Rightarrow> 'a \<Rightarrow> 'a" where
  "useSessionStorage stored initialValue =
     (case stored of None \<Rightarrow> initialValue | Some v \<Rightarrow> v)"

text \<open>The first render of the notes writer in a session, with the key \<open>useApiKey\<close> gives.\<close>

definition NotesWriter_load :: "string option \<Rightarrow> session \<Rightarrow> NotesWriter" where
  "NotesWriter_load key st =
     \<lparr>geminiKey = key,
      formData = useSessionStorage (notes_writer_form st) \<lparr>unitTitle = [], topics = []\<rparr>,
      generatedNotes = useSessionStorage (notes_writer_generated st) [],
      topicContents = useSessionStorage (notes_writer_topics st) [],
      isLoading = False,
      showLoadingModal = False,
      currentSection = None,
      completedSections = [],
      showSuccessModal = False,
      showApiKeyModal = False,
      toasts = [],
      console = []\<rparr>"

text \<open>
  Modelled from the spec: the setter the hook returns for the form of the notes
  writer (see \<open>useSessionStorage\<close> above).
\<close>

definition setFormData :: "FormData \<Rightarrow> NotesWriter \<times> session \<Rightarrow> NotesWriter \<times> session" where
  "setFormData fd page =
     ((fst page)\<lparr>formData := fd\<rparr>, (snd page)\<lparr>notes_writer_form := Some fd\<rparr>)"

text \<open>The \<open>onChange\<close> handlers of the two inputs of the notes writer.\<close>

definition change_unitTitle :: "string \<Rightarrow> NotesWriter \<times> session \<Rightarrow> NotesWriter \<times> session" where
  "change_unitTitle v page = setFormData ((formData (fst page))\<lparr>unitTitle := v\<rparr>) page"

definition change_topics :: "string \<Rightarrow> NotesWriter \<times> session \<Rightarrow> NotesWriter \<times> session" where
  "change_topics v page = setFormData ((formData (fst page))\<lparr>topics := v\<rparr>) page"

text \<open>A session in which nothing is stored yet.\<close>

definition empty_session :: session where
  "empty_session =
     \<lparr>notes_writer_form = None, notes_writer_generated = None, notes_writer_topics = None\<rparr>"

section \<open>The GitHub profile page\<close>

record GitHubFormData =
  title :: string
  subtitle :: string
  programmingSkills :: string
  frontendSkills :: string
  backendSkills :: string
  databaseSkills :: string
  softwareSkills :: string
  work :: string
  projects :: string
  githubLink :: string
  leetcodeLink :: string

text \<open>
  The state of the component, all of it held with \<open>useState\<close>. Its fields
  \<open>formData\<close>, \<open>isLoading\<close> and \<open>error\<close> carry the prefix \<open>profile_\<close> here, the first
  two names being fields of the notes writer already.
\<close>

record GitHubProfile =
  profile_formData :: GitHubFormData
  generatedProfile :: string
  profile_isLoading :: bool
  profile_error :: string

text \<open>
  The first render of the page: the initial values given to \<open>useState\<close>, whatever the
  session holds.
\<close>

definition GitHubProfile_load :: "session \<Rightarrow> GitHubProfile" where
  "GitHubProfile_load st =
     \<lparr>profile_formData =
        \<lparr>title = [], subtitle = [], programmingSkills = [], frontendSkills = [],
         backendSkills = [], databaseSkills = [], softwareSkills = [], work = [],
         projects = [], githubLink = [], leetcodeLink = []\<rparr>,
      generatedProfile = [],
      profile_isLoading = False,
      profile_error = []\<rparr>"

text \<open>The setter of \<open>useState\<close> for the form: it sets the state, and nothing else.\<close>

definition profile_setFormData ::
    "GitHubFormData \<Rightarrow> GitHubProfile \<times> session \<Rightarrow> GitHubProfile \<times> session" where
  "profile_setFormData d page = ((fst page)\<lparr>profile_formData := d\<rparr>, snd page)"

text \<open>The \<open>onChange\<close> handler of the title input.\<close>

definition change_title :: "string \<Rightarrow> GitHubProfile \<times> session \<Rightarrow> GitHubProfile \<times> session" where
  "change_title v page =
     profile_setFormData ((profile_formData (fst page))\<lparr>title := v\<rparr>) page"

definition generatePrompt :: "'a GitHubFormData_scheme \<Rightarrow> string" where
  \<open>generatePrompt data =
     ''Create a professional GitHub profile README.md with the following information:\<newline>'' @
     ''\<newline>'' @
     ''Title: '' @ title data @ ''\<newline>'' @
     ''Subtitle: '' @ subtitle data @ ''\<newline>'' @
     ''\<newline>'' @
     ''Skills:\<newline>'' @
     ''- Programming Languages: '' @ programmingSkills data @ ''\<newline>'' @
     ''- Frontend: '' @ frontendSkills data @ ''\<newline>'' @
     ''- Backend: '' @ backendSkills data @ ''\<newline>'' @
     ''- Databases: '' @ databaseSkills data @ ''\<newline>'' @
     ''- Software & Tools: '' @ softwareSkills data @ ''\<newline>'' @
     ''\<newline>'' @
     ''Work Experience:\<newline>'' @
     work data @ ''\<newline>'' @
     ''\<newline>'' @
     ''Projects:\<newline>'' @
     projects data @ ''\<newline>'' @
     ''\<newline>'' @
     ''Social Links:\<newline>'' @
     ''- GitHub: '' @ githubLink data @ ''\<newline>'' @
     ''- LeetCode: '' @ leetcodeLink data @ ''\<newline>'' @
     ''\<newline>'' @
     ''Please format it beautifully with markdown, including appropriate emojis, badges, and sections. Make it visually appealing and professional.''\<close>

section \<open>The bodies of the prompt builders\<close>

text \<open>
  Each of the two prompt builders returns one template literal. A template literal is
  a row of parts: pieces of text, and holes \<open>${e}\<close> with an expression \<open>e\<close> whose value
  is put in as a string. The expressions in the holes of the two builders name
  variables and their properties; any expression could stand in a hole, a call like
  \<open>Date.now()\<close> or \<open>Math.random()\<close> as well.
\<close>

datatype expr =
  Ident string
| Member expr string
| Call expr "expr list"

datatype part =
  Text string
| Hole expr

text \<open>
  What a template literal evaluates to depends on where and when it is evaluated. A
  \<open>world\<close> tells, for every expression, the string its value gives there and then: for
  the parameters of the function, for the variables of the component that the
  function closes over (\<open>formData\<close>, \<open>geminiKey\<close>, \<open>generatedNotes\<close>, ...), and for
  everything global, the clock, the random numbers and the session storage included.
\<close>

type_synonym world = "expr \<Rightarrow> string"

fun render :: "world \<Rightarrow> part list \<Rightarrow> string" where
  "render w [] = []"
| "render w (Text s # parts) = s @ render w parts"
| "render w (Hole e # parts) = w e @ render w parts"

text \<open>The template literal \<open>generateTopicPrompt\<close> returns (\<open>part_000\<close>, lines 45 to 82).\<close>

definition generateTopicPrompt_body :: "part list" where
  \<open>generateTopicPrompt_body =
     [Text ''Generate comprehensive study notes for the topic "'',
      Hole (Ident ''topic''),
      Text ''" within the unit "'',
      Hole (Member (Ident ''context'') ''unitTitle''),
      Text (''".\<newline>'' @
           ''Use markdown formatting for better readability and structure.\<newline>'' @
           ''\<newline>'' @
           ''Please provide detailed, well-structured content that includes:\<newline>'' @
           ''1. A brief overview of the topic\<newline>'' @
           ''2. Key concepts and principles\<newline>'' @
           ''3. Examples and illustrations where applicable\<newline>'' @
           ''4. Important points to remember\<newline>'' @
           ''5. Common misconceptions or challenges\<newline>'' @
           ''6. Practice questions or exercises (if relevant)\<newline>'' @
           ''\<newline>'' @
           ''Format the content using markdown with:\<newline>'' @
           ''1. Clear headings using ### for sub-topics\<newline>'' @
           ''2. Bullet points and numbered lists where appropriate\<newline>'' @
           ''3. **Bold** and *italic* text for emphasis\<newline>'' @
           ''4. Code blocks with proper syntax highlighting (if needed)\<newline>'' @
           ''5. Tables where relevant\<newline>'' @
           ''6. > Blockquotes for important notes or definitions\<newline>'' @
           ''\<newline>'' @
           ''Structure your response with these sections:\<newline>'' @
           ''### Overview\<newline>'' @
           ''[Brief overview of the topic]\<newline>'' @
           ''\<newline>'' @
           ''### Key Concepts\<newline>'' @
           ''[Explanation of main concepts]\<newline>'' @
           ''\<newline>'' @
           ''### Examples\<newline>'' @
           ''[Practical examples]\<newline>'' @
           ''\<newline>'' @
           ''### Important Points\<newline>'' @
           ''[Key takeaways]\<newline>'' @
           ''\<newline>'' @
           ''If applicable, also include:\<newline>'' @
           ''### Common Misconceptions\<newline>'' @
           ''### Practice Questions\<newline>'' @
           ''\<newline>'' @
           ''DO NOT include a heading for the topic itself, as I will add it separately.\<newline>'' @
           ''Start directly with the content.'')]\<close>

text \<open>The template literal \<open>generatePrompt\<close> returns (\<open>part_001\<close>, lines 30 to 52).\<close>

definition generatePrompt_body :: "part list" where
  \<open>generatePrompt_body =
     [Text (''Create a professional GitHub profile README.md with the following information:\<newline>'' @
           ''\<newline>'' @
           ''Title: ''),
      Hole (Member (Ident ''data'') ''title''),
      Text (''\<newline>'' @
           ''Subtitle: ''),
      Hole (Member (Ident ''data'') ''subtitle''),
      Text (''\<newline>'' @
           ''\<newline>'' @
           ''Skills:\<newline>'' @
           ''- Programming Languages: ''),
      Hole (Member (Ident ''data'') ''programmingSkills''),
      Text (''\<newline>'' @
           ''- Frontend: ''),
      Hole (Member (Ident ''data'') ''frontendSkills''),
      Text (''\<newline>'' @
           ''- Backend: ''),
      Hole (Member (Ident ''data'') ''backendSkills''),
      Text (''\<newline>'' @
           ''- Databases: ''),
      Hole (Member (Ident ''data'') ''databaseSkills''),
      Text (''\<newline>'' @
           ''- Software & Tools: ''),
      Hole (Member (Ident ''data'') ''softwareSkills''),
      Text (''\<newline>'' @
           ''\<newline>'' @
           ''Work Experience:\<newline>''),
      Hole (Member (Ident ''data'') ''work''),
      Text (''\<newline>'' @
           ''\<newline>'' @
           ''Projects:\<newline>''),
      Hole (Member (Ident ''data'') ''projects''),
      Text (''\<newline>'' @
           ''\<newline>'' @
           ''Social Links:\<newline>'' @
           ''- GitHub: ''),
      Hole (Member (Ident ''data'') ''githubLink''),
      Text (''\<newline>'' @
           ''- LeetCode: ''),
      Hole (Member (Ident ''data'') ''leetcodeLink''),
      Text (''\<newline>'' @
           ''\<newline>'' @
           ''Please format it beautifully with markdown, including appropriate emojis, badges, and sections. Make it visually appealing and professional.'')]\<close>

text \<open>
  The world of a call: in the body of \<open>generateTopicPrompt(topic, context)\<close> the
  parameter \<open>topic\<close> has the value of the first argument and \<open>context.unitTitle\<close> the
  unit title of the second; in the body of \<open>generatePrompt(data)\<close> the properties of
  \<open>data\<close> are the fields of the argument. Everything else in the world is as the call
  finds it.
\<close>

definition receives_topic :: "world \<Rightarrow> string \<Rightarrow> 'a prompt_context_scheme \<Rightarrow> bool" where
  "receives_topic w topic' context' \<longleftrightarrow>
     w (Ident ''topic'') = topic' \<and>
     w (Member (Ident ''context'') ''unitTitle'') = unitTitle context'"

definition receives_data :: "world \<Rightarrow> 'a GitHubFormData_scheme \<Rightarrow> bool" where
  "receives_data w data \<longleftrightarrow>
     w (Member (Ident ''data'') ''title'') = title data \<and>
     w (Member (Ident ''data'') ''subtitle'') = subtitle data \<and>
     w (Member (Ident ''data'') ''programmingSkills'') = programmingSkills data \<and>
     w (Member (Ident ''data'') ''frontendSkills'') = frontendSkills data \<and>
     w (Member (Ident ''data'') ''backendSkills'') = backendSkills data \<and>
     w (Member (Ident ''data'') ''databaseSkills'') = databaseSkills data \<and>
     w (Member (Ident ''data'') ''softwareSkills'') = softwareSkills data \<and>
     w (Member (Ident ''data'') ''work'') = work data \<and>
     w (Member (Ident ''data'') ''projects'') = projects data \<and>
     w (Member (Ident ''data'') ''githubLink'') = githubLink data \<and>
     w (Member (Ident ''data'') ''leetcodeLink'') = leetcodeLink data"

section \<open>What the service answered in a run\<close>

text \<open>
  The calls of a run are numbered in the order of the topics, so the topics and the
  service determine how each call settles: \<open>settle g fd k ts\<close> pairs every topic of
  \<open>ts\<close> with the outcome of its call, the first call having the number \<open>k\<close>.
  \<open>successes\<close> keeps the topics whose call returned, with the text returned;
  \<open>failures\<close> keeps the topics whose call threw, with the value thrown.
\<close>

fun settle :: "gemini \<Rightarrow> FormData \<Rightarrow> nat \<Rightarrow> string list \<Rightarrow> (string \<times> outcome) list" where
  "settle g fd k [] = []"
| "settle g fd k (t # ts) =
     (t, g k (generateTopicPrompt t \<lparr>unitTitle = unitTitle fd\<rparr>)) # settle g fd (Suc k) ts"

fun successes :: "(string \<times> outcome) list \<Rightarrow> (string \<times> string) list" where
  "successes [] = []"
| "successes ((t, Inr c) # rest) = (t, c) # successes rest"
| "successes ((t, Inl e) # rest) = successes rest"

fun failures :: "(string \<times> outcome) list \<Rightarrow> (string \<times> js_error) list" where
  "failures [] = []"
| "failures ((t, Inl e) # rest) = (t, e) # failures rest"
| "failures ((t, Inr c) # rest) = failures rest"

text \<open>The prompts of the calls in some traffic, in the order of the calls.\<close>

fun requests :: "net_event list \<Rightarrow> string list" where
  "requests [] = []"
| "requests (Request prompt # rest) = prompt # requests rest"
| "requests (Settled out # rest) = requests rest"

section \<open>Pages, services and data to run the program on\<close>

text \<open>
  A page with a key, a filled form and the leftovers of an earlier run; a service that
  answers every call, and one that fails every call.
\<close>

definition example_page :: NotesWriter where
  "example_page =
     (initial_NotesWriter (Some ''key''))
       \<lparr>formData := \<lparr>unitTitle = ''Graphs'', topics = '' BFS, ,DFS,''\<rparr>,
        generatedNotes := ''# Old notes'',
        topicContents := [\<lparr>topic = ''Old'', content = ''old''\<rparr>],
        completedSections := [''Old'']\<rparr>"

definition answering :: gemini where
  "answering k prompt = Inr (if k = 0 then ''first answer'' else ''later answer'')"

definition failing :: gemini where
  "failing k prompt = Inl (Error ''quota exceeded'')"

text \<open>A service that turns every call down for its key.\<close>

definition rejecting :: gemini where
  "rejecting k prompt = Inl (Object_with_message ''API key not valid'')"

text \<open>A service whose first call fails and whose later calls answer.\<close>

definition flaky :: gemini where
  "flaky k prompt = (if k = 0 then Inl (Error ''overloaded'') else Inr ''Depth first.'')"

text \<open>
  A page whose topics field names a topic twice, with another topic in between, and
  two services for it: the first answers the first call and fails the two later
  ones, the second fails the first two calls in the same two ways and answers the
  third call with the same text.
\<close>

definition repeated_page :: NotesWriter where
  "repeated_page =
     example_page\<lparr>formData := \<lparr>unitTitle = ''Graphs'', topics = ''DFS,BFS,DFS''\<rparr>\<rparr>"

definition failing_late :: gemini where
  "failing_late k prompt =
     (if k = 0 then Inr ''Depth first.''
      else if k = 1 then Inl (Error ''overloaded'')
      else Inl (Error ''timed out''))"

definition failing_early :: gemini where
  "failing_early k prompt =
     (if k = 0 then Inl (Error ''overloaded'')
      else if k = 1 then Inl (Error ''timed out'')
      else Inr ''Depth first.'')"

text \<open>Notes that quote a script element, as notes on web pages do.\<close>

definition script_notes :: string where
  \<open>script_notes = ''# Web\<newline>\<newline>\<newline>## Scripts\<newline>\<newline>Close the element with </script>.''\<close>

text \<open>
  A page whose form asks for notes on scripts, and a service that answers with a
  sentence quoting the closing tag.
\<close>

definition web_page :: NotesWriter where
  "web_page = example_page\<lparr>formData := \<lparr>unitTitle = ''Web'', topics = ''Scripts''\<rparr>\<rparr>"

definition explaining :: gemini where
  \<open>explaining k prompt = Inr ''Close the element with </script>.''\<close>

text \<open>A filled form of the GitHub profile page.\<close>

definition example_profile :: GitHubFormData where
  "example_profile =
     \<lparr>title = ''Hi, I am Sarah Johnson'',
      subtitle = ''A passionate Full Stack Developer from San Francisco'',
      programmingSkills = ''Python, JavaScript'',
      frontendSkills = ''React'',
      backendSkills = ''Node.js'',
      databaseSkills = ''PostgreSQL'',
      softwareSkills = ''Git, Docker'',
      work = ''- Senior Full Stack Developer at TechCorp (2021-Present)'',
      projects = ''- BuildMaster: A CI/CD platform with 1000+ active users'',
      githubLink = ''https://github.com/sarahjohnson'',
      leetcodeLink = ''https://leetcode.com/sarahjohnson''\<rparr>"

text \<open>
  Worlds of calls with the topic \<open>BFS\<close>, the unit title \<open>Graphs\<close> and the form above as
  \<open>data\<close>, in which every other expression has the value \<open>rest\<close>.
\<close>

definition example_world :: "string \<Rightarrow> world" where
  "example_world rest =
     (\<lambda>e. rest)
       (Ident ''topic'' := ''BFS'',
        Member (Ident ''context'') ''unitTitle'' := ''Graphs'',
        Member (Ident ''data'') ''title'' := title example_profile,
        Member (Ident ''data'') ''subtitle'' := subtitle example_profile,
        Member (Ident ''data'') ''programmingSkills'' := programmingSkills example_profile,
        Member (Ident ''data'') ''frontendSkills'' := frontendSkills example_profile,
        Member (Ident ''data'') ''backendSkills'' := backendSkills example_profile,
        Member (Ident ''data'') ''databaseSkills'' := databaseSkills example_profile,
        Member (Ident ''data'') ''softwareSkills'' := softwareSkills example_profile,
        Member (Ident ''data'') ''work'' := work example_profile,
        Member (Ident ''data'') ''projects'' := projects example_profile,
        Member (Ident ''data'') ''githubLink'' := githubLink example_profile,
        Member (Ident ''data'') ''leetcodeLink'' := leetcodeLink example_profile)"

section \<open>Properties of the notes writer\<close>

subsection \<open>The guards of \<open>handleSubmit\<close>\<close>

text \<open>
  Claim C8. When there is no API key (none at all, or the empty string), or the unit
  title is empty, or the topics field is empty, \<open>handleSubmit\<close> makes no generation
  call and leaves the generated notes, the topic contents and the completed sections
  as they were.
\<close>

theorem handleSubmit_guarded:
  assumes "geminiKey s = None \<or> geminiKey s = Some [] \<or>
           unitTitle (formData s) = [] \<or> topics (formData s) = []"
  shows "snd (handleSubmit g s) = [] \<and>
         generatedNotes (fst (handleSubmit g s)) = generatedNotes s \<and>
         topicContents (fst (handleSubmit g s)) = topicContents s \<and>
         completedSections (fst (handleSubmit g s)) = completedSections s"
  using assms by (auto simp: handleSubmit_def Boolean_def split: option.splits)

theorem handleSubmit_guarded_witness:
  "geminiKey (example_page\<lparr>geminiKey := None\<rparr>) = None \<and>
   snd (handleSubmit answering (example_page\<lparr>geminiKey := None\<rparr>)) = [] \<and>
   generatedNotes (fst (handleSubmit answering (example_page\<lparr>geminiKey := None\<rparr>))) =
     ''# Old notes'' \<and>
   unitTitle (formData (example_page\<lparr>formData := \<lparr>unitTitle = [], topics = ''BFS''\<rparr>\<rparr>)) = [] \<and>
   snd (handleSubmit answering
     (example_page\<lparr>formData := \<lparr>unitTitle = [], topics = ''BFS''\<rparr>\<rparr>)) = [] \<and>
   generatedNotes (fst (handleSubmit answering
     (example_page\<lparr>formData := \<lparr>unitTitle = [], topics = ''BFS''\<rparr>\<rparr>))) = ''# Old notes'' \<and>
   topicContents (fst (handleSubmit answering
     (example_page\<lparr>formData := \<lparr>unitTitle = [], topics = ''BFS''\<rparr>\<rparr>))) =
     [\<lparr>topic = ''Old'', content = ''old''\<rparr>] \<and>
   completedSections (fst (handleSubmit answering
     (example_page\<lparr>formData := \<lparr>unitTitle = [], topics = ''BFS''\<rparr>\<rparr>))) = [''Old''] \<and>
   topics (formData (example_page\<lparr>formData := \<lparr>unitTitle = ''Graphs'', topics = []\<rparr>\<rparr>)) = [] \<and>
   snd (handleSubmit answering
     (example_page\<lparr>formData := \<lparr>unitTitle = ''Graphs'', topics = []\<rparr>\<rparr>)) = [] \<and>
   generatedNotes (fst (handleSubmit answering
     (example_page\<lparr>formData := \<lparr>unitTitle = ''Graphs'', topics = []\<rparr>\<rparr>))) = ''# Old notes''"
  using handleSubmit_guarded [of "example_page\<lparr>geminiKey := None\<rparr>" answering]
    handleSubmit_guarded
      [of "example_page\<lparr>formData := \<lparr>unitTitle = [], topics = ''BFS''\<rparr>\<rparr>" answering]
    handleSubmit_guarded
      [of "example_page\<lparr>formData := \<lparr>unitTitle = ''Graphs'', topics = []\<rparr>\<rparr>" answering]
  by (simp add: example_page_def initial_NotesWriter_def)

subsection \<open>The loop over the topics\<close>

text \<open>
  Each component of a run after the loop, in terms of the component before it and
  of the outcomes of the calls.
\<close>

lemma traffic_for_topics:
  "traffic (for_topics g fd k ts r) =
     traffic r @
     concat (map (\<lambda>(t, out). [Request (generateTopicPrompt t \<lparr>unitTitle = unitTitle fd\<rparr>),
                               Settled out])
               (settle g fd k ts))"
  by (induction ts arbitrary: k r) (simp_all add: Let_def split: sum.splits)

lemma allContent_for_topics:
  "allContent (for_topics g fd k ts r) =
     allContent r @
     map (\<lambda>(t, c). ''\<newline>\<newline>## '' @ t @ ''\<newline>\<newline>'' @ c) (successes (settle g fd k ts))"
  by (induction ts arbitrary: k r) (simp_all add: Let_def split: sum.splits)

lemma newTopicContents_for_topics:
  "newTopicContents (for_topics g fd k ts r) =
     newTopicContents r @
     map (\<lambda>(t, c). \<lparr>topic = t, content = c\<rparr>) (successes (settle g fd k ts))"
  by (induction ts arbitrary: k r) (simp_all add: Let_def split: sum.splits)

lemma completedSections_for_topics:
  "completedSections (ui (for_topics g fd k ts r)) =
     completedSections (ui r) @ map fst (successes (settle g fd k ts))"
  by (induction ts arbitrary: k r)
     (simp_all add: Let_def catch_generation_error_def split: sum.splits)

lemma toasts_for_topics:
  "toasts (ui (for_topics g fd k ts r)) =
     toasts (ui r) @
     map (\<lambda>(t, e). if includes_str (errorMessage e) ''API key''
                     then toast_invalid_api_key else toast_generation_failed)
       (failures (settle g fd k ts))"
  by (induction ts arbitrary: k r)
     (simp_all add: Let_def catch_generation_error_def split: sum.splits)

lemma console_for_topics:
  "console (ui (for_topics g fd k ts r)) = console (ui r) @ map snd (failures (settle g fd k ts))"
  by (induction ts arbitrary: k r)
     (simp_all add: Let_def catch_generation_error_def split: sum.splits)

lemma showApiKeyModal_for_topics:
  "showApiKeyModal (ui (for_topics g fd k ts r)) \<longleftrightarrow>
     showApiKeyModal (ui r) \<or>
     list_ex (\<lambda>(t, e). includes_str (errorMessage e) ''API key'') (failures (settle g fd k ts))"
  by (induction ts arbitrary: k r)
     (auto simp: Let_def catch_generation_error_def split: sum.splits)

lemma untouched_for_topics:
  "geminiKey (ui (for_topics g fd k ts r)) = geminiKey (ui r)"
  "formData (ui (for_topics g fd k ts r)) = formData (ui r)"
  "generatedNotes (ui (for_topics g fd k ts r)) = generatedNotes (ui r)"
  "topicContents (ui (for_topics g fd k ts r)) = topicContents (ui r)"
  "isLoading (ui (for_topics g fd k ts r)) = isLoading (ui r)"
  "showLoadingModal (ui (for_topics g fd k ts r)) = showLoadingModal (ui r)"
  "showSuccessModal (ui (for_topics g fd k ts r)) = showSuccessModal (ui r)"
  by (induction ts arbitrary: k r)
     (simp_all add: Let_def catch_generation_error_def split: sum.splits)

text \<open>The outcomes by the number of the call.\<close>

lemma length_settle: "length (settle g fd k ts) = length ts"
  by (induction ts arbitrary: k) simp_all

lemma nth_settle:
  "i < length ts \<Longrightarrow>
     settle g fd k ts ! i = (ts ! i, g (k + i) (generateTopicPrompt (ts ! i) \<lparr>unitTitle = unitTitle fd\<rparr>))"
  by (induction ts arbitrary: k i) (simp_all add: nth_Cons split: nat.splits)

subsection \<open>A run of \<open>handleSubmit\<close> past its guards\<close>

lemma handleSubmit_run:
  assumes "geminiKey s = Some key" "key \<noteq> []"
    and "unitTitle (formData s) \<noteq> []" "topics (formData s) \<noteq> []"
  shows "handleSubmit g s =
     (let r = for_topics g (formData s) 0 (split_topics (topics (formData s)))
                \<lparr>ui = s\<lparr>isLoading := True, showLoadingModal := True, topicContents := [],
                          completedSections := [], generatedNotes := []\<rparr>,
                 allContent = [''# '' @ unitTitle (formData s) @ ''\<newline>''],
                 newTopicContents = [],
                 traffic = []\<rparr>
      in ((ui r)\<lparr>generatedNotes := join (allContent r),
                  topicContents := newTopicContents r,
                  showSuccessModal := True,
                  isLoading := False, showLoadingModal := False, currentSection := None\<rparr>,
          traffic r))"
  using assms by (simp add: handleSubmit_def Boolean_def Let_def)

lemma traffic_handleSubmit:
  assumes "geminiKey s = Some key" "key \<noteq> []"
    and "unitTitle (formData s) \<noteq> []" "topics (formData s) \<noteq> []"
  shows "snd (handleSubmit g s) =
     concat (map (\<lambda>(t, out). [Request (generateTopicPrompt t \<lparr>unitTitle = unitTitle (formData s)\<rparr>),
                               Settled out])
               (settle g (formData s) 0 (split_topics (topics (formData s)))))"
  by (simp add: handleSubmit_run [OF assms] Let_def traffic_for_topics)

lemma generatedNotes_handleSubmit:
  assumes "geminiKey s = Some key" "key \<noteq> []"
    and "unitTitle (formData s) \<noteq> []" "topics (formData s) \<noteq> []"
  shows "generatedNotes (fst (handleSubmit g s)) =
     ''# '' @ unitTitle (formData s) @ ''\<newline>'' @
     concat (map (\<lambda>(t, c). ''\<newline>\<newline>## '' @ t @ ''\<newline>\<newline>'' @ c)
               (successes (settle g (formData s) 0 (split_topics (topics (formData s))))))"
  by (simp add: handleSubmit_run [OF assms] Let_def allContent_for_topics join_def)

lemma topicContents_handleSubmit:
  assumes "geminiKey s = Some key" "key \<noteq> []"
    and "unitTitle (formData s) \<noteq> []" "topics (formData s) \<noteq> []"
  shows "topicContents (fst (handleSubmit g s)) =
     map (\<lambda>(t, c). \<lparr>topic = t, content = c\<rparr>)
       (successes (settle g (formData s) 0 (split_topics (topics (formData s)))))"
  by (simp add: handleSubmit_run [OF assms] Let_def newTopicContents_for_topics)

lemma completedSections_handleSubmit:
  assumes "geminiKey s = Some key" "key \<noteq> []"
    and "unitTitle (formData s) \<noteq> []" "topics (formData s) \<noteq> []"
  shows "completedSections (fst (handleSubmit g s)) =
     map fst (successes (settle g (formData s) 0 (split_topics (topics (formData s)))))"
  by (simp add: handleSubmit_run [OF assms] Let_def completedSections_for_topics)

lemma toasts_handleSubmit:
  assumes "geminiKey s = Some key" "key \<noteq> []"
    and "unitTitle (formData s) \<noteq> []" "topics (formData s) \<noteq> []"
  shows "toasts (fst (handleSubmit g s)) =
     toasts s @
     map (\<lambda>(t, e). if includes_str (errorMessage e) ''API key''
                     then toast_invalid_api_key else toast_generation_failed)
       (failures (settle g (formData s) 0 (split_topics (topics (formData s)))))"
  by (simp add: handleSubmit_run [OF assms] Let_def toasts_for_topics)

lemma console_handleSubmit:
  assumes "geminiKey s = Some key" "key \<noteq> []"
    and "unitTitle (formData s) \<noteq> []" "topics (formData s) \<noteq> []"
  shows "console (fst (handleSubmit g s)) =
     console s @ map snd (failures (settle g (formData s) 0 (split_topics (topics (formData s)))))"
  by (simp add: handleSubmit_run [OF assms] Let_def console_for_topics)

lemma showApiKeyModal_handleSubmit:
  assumes "geminiKey s = Some key" "key \<noteq> []"
    and "unitTitle (formData s) \<noteq> []" "topics (formData s) \<noteq> []"
  shows "showApiKeyModal (fst (handleSubmit g s)) \<longleftrightarrow>
     showApiKeyModal s \<or>
     list_ex (\<lambda>(t, e). includes_str (errorMessage e) ''API key'')
       (failures (settle g (formData s) 0 (split_topics (topics (formData s)))))"
  by (simp add: handleSubmit_run [OF assms] Let_def showApiKeyModal_for_topics)

lemma finished_handleSubmit:
  assumes "geminiKey s = Some key" "key \<noteq> []"
    and "unitTitle (formData s) \<noteq> []" "topics (formData s) \<noteq> []"
  shows "showSuccessModal (fst (handleSubmit g s))"
    and "\<not> isLoading (fst (handleSubmit g s))"
    and "\<not> showLoadingModal (fst (handleSubmit g s))"
    and "currentSection (fst (handleSubmit g s)) = None"
    and "formData (fst (handleSubmit g s)) = formData s"
    and "geminiKey (fst (handleSubmit g s)) = geminiKey s"
  by (simp_all add: handleSubmit_run [OF assms] Let_def untouched_for_topics)

subsection \<open>Lists of outcomes\<close>

lemma length_concat_pairs:
  "length (concat (map (\<lambda>(t, out). [A t, B out]) xs)) = 2 * length xs"
  by (induction xs) auto

lemma nth_concat_pairs:
  "i < length xs \<Longrightarrow>
     concat (map (\<lambda>(t, out). [A t, B out]) xs) ! (2 * i) = A (fst (xs ! i)) \<and>
     concat (map (\<lambda>(t, out). [A t, B out]) xs) ! (2 * i + 1) = B (snd (xs ! i))"
proof (induction xs arbitrary: i)
  case Nil
  then show ?case by simp
next
  case (Cons x xs)
  show ?case
  proof (cases i)
    case 0
    then show ?thesis by (simp add: case_prod_beta)
  next
    case (Suc j)
    with Cons.prems have "j < length xs" by simp
    from Cons.IH [OF this] Suc show ?thesis by (simp add: case_prod_beta)
  qed
qed

lemma successes_all_failed:
  "(\<And>i. i < length ts \<Longrightarrow>
      \<exists>e. g (k + i) (generateTopicPrompt (ts ! i) \<lparr>unitTitle = unitTitle fd\<rparr>) = Inl e) \<Longrightarrow>
   successes (settle g fd k ts) = []"
proof (induction ts arbitrary: k)
  case Nil
  then show ?case by simp
next
  case (Cons t ts)
  from Cons.prems [of 0] obtain e
    where "g k (generateTopicPrompt t \<lparr>unitTitle = unitTitle fd\<rparr>) = Inl e" by auto
  moreover have "successes (settle g fd (Suc k) ts) = []"
  proof (rule Cons.IH)
    fix i assume "i < length ts"
    with Cons.prems [of "Suc i"]
    show "\<exists>e. g (Suc k + i) (generateTopicPrompt (ts ! i) \<lparr>unitTitle = unitTitle fd\<rparr>) = Inl e"
      by simp
  qed
  ultimately show ?case by simp
qed

lemma success_in_successes:
  "i < length ts \<Longrightarrow>
   g (k + i) (generateTopicPrompt (ts ! i) \<lparr>unitTitle = unitTitle fd\<rparr>) = Inr c \<Longrightarrow>
   (ts ! i, c) \<in> set (successes (settle g fd k ts))"
proof (induction ts arbitrary: k i)
  case Nil
  then show ?case by simp
next
  case (Cons t ts)
  show ?case
  proof (cases i)
    case 0
    with Cons.prems show ?thesis by simp
  next
    case (Suc j)
    with Cons.prems have "(ts ! j, c) \<in> set (successes (settle g fd (Suc k) ts))"
      by (intro Cons.IH) simp_all
    with Suc show ?thesis
      by (cases "g k (generateTopicPrompt t \<lparr>unitTitle = unitTitle fd\<rparr>)") simp_all
  qed
qed

lemma count_list_settle:
  "count_list ts t =
     count_list (map fst (successes (settle g fd k ts))) t +
     count_list (map fst (failures (settle g fd k ts))) t"
proof (induction ts arbitrary: k)
  case Nil
  then show ?case by simp
next
  case (Cons a ts)
  from Cons.IH [of "Suc k"] show ?case
    by (cases "g k (generateTopicPrompt a \<lparr>unitTitle = unitTitle fd\<rparr>)") simp_all
qed

lemma sublist_concat_map:
  "x \<in> set xs \<Longrightarrow> sublist (f x) (concat (map f xs))"
proof -
  assume "x \<in> set xs"
  then obtain ys zs where "xs = ys @ x # zs" by (auto dest: split_list)
  then have "concat (map f xs) = concat (map f ys) @ f x @ concat (map f zs)" by simp
  then show ?thesis unfolding sublist_def by blast
qed

subsection \<open>One call per topic, one after the other\<close>

text \<open>
  Claim C1, as the code has it. Let \<open>handleSubmit\<close> be called with an API key that is
  present and not empty, a unit title that is not empty and a topics field that is not
  empty, and let \<open>t\<^sub>0, ..., t\<^sub>n\<^sub>-\<^sub>1\<close> be the topics field split at the commas, every
  fragment trimmed and the empty ones dropped. Then the traffic with the service is
  exactly: the call for \<open>t\<^sub>0\<close>, its settling, the call for \<open>t\<^sub>1\<close>, its settling, and so
  on. So there is one call per topic, the calls follow the order of the topics, the
  call for a topic carries that topic's prompt, and no call is made before the call
  before it has settled.
\<close>

theorem handleSubmit_one_call_per_topic:
  assumes "geminiKey s = Some key" "key \<noteq> []"
    and "unitTitle (formData s) \<noteq> []" "topics (formData s) \<noteq> []"
  shows "length (snd (handleSubmit g s)) = 2 * length (split_topics (topics (formData s))) \<and>
    (\<forall>i < length (split_topics (topics (formData s))).
       snd (handleSubmit g s) ! (2 * i) =
         Request (generateTopicPrompt (split_topics (topics (formData s)) ! i)
                    \<lparr>unitTitle = unitTitle (formData s)\<rparr>) \<and>
       snd (handleSubmit g s) ! (2 * i + 1) =
         Settled (g i (generateTopicPrompt (split_topics (topics (formData s)) ! i)
                         \<lparr>unitTitle = unitTitle (formData s)\<rparr>)))"
proof (intro conjI allI impI)
  let ?ts = "split_topics (topics (formData s))"
  let ?xs = "settle g (formData s) 0 ?ts"
  note traffic = traffic_handleSubmit [OF assms, of g]
  show "length (snd (handleSubmit g s)) = 2 * length ?ts"
    by (simp only: traffic length_concat_pairs length_settle)
  fix i assume i: "i < length ?ts"
  then have "i < length ?xs" by (simp add: length_settle)
  from nth_concat_pairs [OF this,
      where A = "\<lambda>t. Request (generateTopicPrompt t \<lparr>unitTitle = unitTitle (formData s)\<rparr>)"
        and B = Settled]
    nth_settle [OF i, of g "formData s" 0]
  show "snd (handleSubmit g s) ! (2 * i) =
          Request (generateTopicPrompt (?ts ! i) \<lparr>unitTitle = unitTitle (formData s)\<rparr>)"
    and "snd (handleSubmit g s) ! (2 * i + 1) =
          Settled (g i (generateTopicPrompt (?ts ! i) \<lparr>unitTitle = unitTitle (formData s)\<rparr>))"
    by (simp_all add: traffic)
qed

text \<open>The example page passes the guards; its topics are \<open>BFS\<close> and \<open>DFS\<close>.\<close>

lemma example_page_topics:
  "split_topics (topics (formData example_page)) = [''BFS'', ''DFS'']"
  by (simp add: example_page_def initial_NotesWriter_def split_topics_def trim_def
      is_white_space_def Boolean_def)

lemma example_page_guards:
  "geminiKey example_page = Some ''key''" "''key'' \<noteq> []"
  "unitTitle (formData example_page) \<noteq> []" "topics (formData example_page) \<noteq> []"
  by (simp_all add: example_page_def initial_NotesWriter_def)

lemma example_page_title: "unitTitle (formData example_page) = ''Graphs''"
  by (simp add: example_page_def initial_NotesWriter_def)

theorem handleSubmit_one_call_per_topic_witness:
  "geminiKey example_page = Some ''key'' \<and>
   split_topics (topics (formData example_page)) = [''BFS'', ''DFS''] \<and>
   length (snd (handleSubmit flaky example_page)) = 4 \<and>
   snd (handleSubmit flaky example_page) ! 0 =
     Request (generateTopicPrompt ''BFS'' \<lparr>unitTitle = ''Graphs''\<rparr>) \<and>
   snd (handleSubmit flaky example_page) ! 1 = Settled (Inl (Error ''overloaded'')) \<and>
   snd (handleSubmit flaky example_page) ! 2 =
     Request (generateTopicPrompt ''DFS'' \<lparr>unitTitle = ''Graphs''\<rparr>) \<and>
   snd (handleSubmit flaky example_page) ! 3 = Settled (Inr ''Depth first.'')"
proof -
  from handleSubmit_one_call_per_topic [OF example_page_guards, of flaky]
  have len: "length (snd (handleSubmit flaky example_page)) = 4"
    and nth: "\<And>i. i < 2 \<Longrightarrow>
       snd (handleSubmit flaky example_page) ! (2 * i) =
         Request (generateTopicPrompt ([''BFS'', ''DFS''] ! i) \<lparr>unitTitle = ''Graphs''\<rparr>) \<and>
       snd (handleSubmit flaky example_page) ! (2 * i + 1) =
         Settled (flaky i (generateTopicPrompt ([''BFS'', ''DFS''] ! i) \<lparr>unitTitle = ''Graphs''\<rparr>))"
    by (simp_all add: example_page_topics example_page_title)
  from len nth [of 0] nth [of 1] show ?thesis
    by (simp add: flaky_def example_page_guards example_page_topics)
qed

text \<open>
  Claim C1 as it is written asks for the calls whenever the topics field yields a
  list that is not empty. It fails where a guard of \<open>handleSubmit\<close> returns first:
  without an API key the same form, whose topics are \<open>BFS\<close> and \<open>DFS\<close>, causes no call
  at all.
\<close>

theorem handleSubmit_no_call_without_key:
  "split_topics (topics (formData (example_page\<lparr>geminiKey := None\<rparr>))) = [''BFS'', ''DFS''] \<and>
   snd (handleSubmit answering (example_page\<lparr>geminiKey := None\<rparr>)) = []"
  by (simp add: example_page_def initial_NotesWriter_def split_topics_def trim_def
      is_white_space_def Boolean_def handleSubmit_def)

subsection \<open>What a run leaves behind\<close>

text \<open>
  Claim C2. A run of \<open>handleSubmit\<close> past its guards, over the topics \<open>t\<^sub>0, ..., t\<^sub>n\<^sub>-\<^sub>1\<close>
  with the unit title \<open>u\<close>, whatever the service does: the generated notes are the
  heading \<open># u\<close> and a line break, followed by one section for each topic whose call
  returned, in the order of the topics, the section of topic \<open>t\<close> with the text \<open>c\<close>
  being two line breaks, \<open>## t\<close>, two line breaks and \<open>c\<close>; and the stored topic
  contents are the pairs of topic and text of exactly those topics, in that order.
\<close>

theorem handleSubmit_notes_of_successes:
  assumes "geminiKey s = Some key" "key \<noteq> []"
    and "unitTitle (formData s) \<noteq> []" "topics (formData s) \<noteq> []"
  shows "generatedNotes (fst (handleSubmit g s)) =
      ''# '' @ unitTitle (formData s) @ ''\<newline>'' @
      concat (map (\<lambda>(t, c). ''\<newline>\<newline>## '' @ t @ ''\<newline>\<newline>'' @ c)
                (successes (settle g (formData s) 0 (split_topics (topics (formData s)))))) \<and>
    topicContents (fst (handleSubmit g s)) =
      map (\<lambda>(t, c). \<lparr>topic = t, content = c\<rparr>)
        (successes (settle g (formData s) 0 (split_topics (topics (formData s)))))"
  using generatedNotes_handleSubmit [OF assms, of g] topicContents_handleSubmit [OF assms, of g]
  by simp

theorem handleSubmit_notes_of_successes_witness:
  "successes (settle flaky (formData example_page) 0
     (split_topics (topics (formData example_page)))) = [(''DFS'', ''Depth first.'')] \<and>
   generatedNotes (fst (handleSubmit flaky example_page)) =
     ''# Graphs\<newline>\<newline>\<newline>## DFS\<newline>\<newline>Depth first.'' \<and>
   topicContents (fst (handleSubmit flaky example_page)) =
     [\<lparr>topic = ''DFS'', content = ''Depth first.''\<rparr>]"
  using handleSubmit_notes_of_successes [OF example_page_guards, of flaky]
  by (simp add: example_page_topics example_page_title flaky_def)

subsection \<open>A run in which every call fails\<close>

text \<open>
  Claim C10. When every generation call of a run fails, the run still ends as a
  success: the generated notes are the heading \<open># u\<close> with its line break and nothing
  else, the stored topic contents are empty, and the success dialog is open and
  reports 0 topics.
\<close>

theorem handleSubmit_all_failed:
  assumes "geminiKey s = Some key" "key \<noteq> []"
    and "unitTitle (formData s) \<noteq> []" "topics (formData s) \<noteq> []"
    and "\<forall>i < length (split_topics (topics (formData s))).
           \<exists>e. g i (generateTopicPrompt (split_topics (topics (formData s)) ! i)
                      \<lparr>unitTitle = unitTitle (formData s)\<rparr>) = Inl e"
  shows "generatedNotes (fst (handleSubmit g s)) = ''# '' @ unitTitle (formData s) @ ''\<newline>'' \<and>
    topicContents (fst (handleSubmit g s)) = [] \<and>
    showSuccessModal (fst (handleSubmit g s)) \<and>
    SuccessModal (fst (handleSubmit g s)) =
      Some ''Your study notes have been successfully generated with 0 topics.''"
proof -
  have none: "successes (settle g (formData s) 0 (split_topics (topics (formData s)))) = []"
    by (rule successes_all_failed) (use assms(5) in simp)
  have guards: "geminiKey s = Some key" "key \<noteq> []"
    "unitTitle (formData s) \<noteq> []" "topics (formData s) \<noteq> []"
    by fact+
  have shown: "showSuccessModal (fst (handleSubmit g s))"
    by (rule finished_handleSubmit [OF guards])
  have "topicContents (fst (handleSubmit g s)) = []"
    by (simp add: topicContents_handleSubmit [OF guards] none)
  moreover have "generatedNotes (fst (handleSubmit g s)) = ''# '' @ unitTitle (formData s) @ ''\<newline>''"
    by (simp add: generatedNotes_handleSubmit [OF guards] none)
  moreover have "Number_toString 0 = ''0''"
    by (simp add: Number_toString.simps)
  ultimately show ?thesis
    using shown by (simp add: SuccessModal_def)
qed

theorem handleSubmit_all_failed_witness:
  "split_topics (topics (formData example_page)) = [''BFS'', ''DFS''] \<and>
   failing 0 (generateTopicPrompt ''BFS'' \<lparr>unitTitle = ''Graphs''\<rparr>) = Inl (Error ''quota exceeded'') \<and>
   failing 1 (generateTopicPrompt ''DFS'' \<lparr>unitTitle = ''Graphs''\<rparr>) = Inl (Error ''quota exceeded'') \<and>
   generatedNotes (fst (handleSubmit failing example_page)) = ''# Graphs\<newline>'' \<and>
   topicContents (fst (handleSubmit failing example_page)) = [] \<and>
   showSuccessModal (fst (handleSubmit failing example_page)) \<and>
   SuccessModal (fst (handleSubmit failing example_page)) =
     Some ''Your study notes have been successfully generated with 0 topics.''"
  using handleSubmit_all_failed [OF example_page_guards, of failing]
  by (simp add: example_page_topics example_page_title failing_def)

subsection \<open>The topics of a run\<close>

text \<open>
  Splitting at a separator: there is always a fragment, no fragment holds the
  separator, and the fragments, each behind a separator, make up the text behind a
  separator. Trimming leaves nothing exactly of the fragments that are white space
  throughout.
\<close>

lemma split_on_not_Nil: "split_on sep s \<noteq> []"
  by (induction s) (auto split: list.splits)

lemma split_on_joined: "concat (map (\<lambda>f. sep # f) (split_on sep s)) = sep # s"
  by (induction s) (auto split: list.splits)

lemma split_on_fragments: "f \<in> set (split_on sep s) \<Longrightarrow> sep \<notin> set f"
  by (induction s arbitrary: f) (auto split: list.splits if_splits)

lemma trim_Nil_iff: "trim f = [] \<longleftrightarrow> list_all is_white_space f"
proof -
  let ?rest = "dropWhile is_white_space f"
  have "trim f = [] \<longleftrightarrow> (\<forall>c \<in> set ?rest. is_white_space c)"
    by (simp add: trim_def dropWhile_eq_Nil_conv)
  also have "\<dots> \<longleftrightarrow> ?rest = []"
  proof
    assume all: "\<forall>c \<in> set ?rest. is_white_space c"
    show "?rest = []"
    proof (rule ccontr)
      assume ne: "?rest \<noteq> []"
      then have "\<not> is_white_space (hd ?rest)" by (rule hd_dropWhile)
      moreover from ne have "hd ?rest \<in> set ?rest" by simp
      ultimately show False using all by blast
    qed
  next
    assume "?rest = []"
    then show "\<forall>c \<in> set ?rest. is_white_space c"
      by (simp del: dropWhile_eq_Nil_conv)
  qed
  also have "\<dots> \<longleftrightarrow> list_all is_white_space f"
    by (simp add: dropWhile_eq_Nil_conv list_all_iff)
  finally show ?thesis .
qed

lemma split_topics_fragments:
  "split_topics s = map trim (filter (\<lambda>f. \<not> list_all is_white_space f) (split_on (CHR '','') s))"
  by (simp add: split_topics_def filter_map comp_def Boolean_def trim_Nil_iff)

lemma requests_concat_pairs:
  "requests (concat (map (\<lambda>(t, out). [Request (A t), Settled out]) xs)) = map (\<lambda>x. A (fst x)) xs"
  by (induction xs) auto

lemma map_fst_settle: "map fst (settle g fd k ts) = ts"
  by (induction ts arbitrary: k) simp_all

lemma requests_handleSubmit:
  assumes "geminiKey s = Some key" "key \<noteq> []" "unitTitle (formData s) \<noteq> []"
  shows "requests (snd (handleSubmit g s)) =
     map (\<lambda>t. generateTopicPrompt t \<lparr>unitTitle = unitTitle (formData s)\<rparr>)
       (split_topics (topics (formData s)))"
proof (cases "topics (formData s) = []")
  case True
  with assms show ?thesis
    by (simp add: handleSubmit_def Boolean_def split_topics_def trim_def)
next
  case False
  have "requests (snd (handleSubmit g s)) =
      map (\<lambda>x. generateTopicPrompt (fst x) \<lparr>unitTitle = unitTitle (formData s)\<rparr>)
        (settle g (formData s) 0 (split_topics (topics (formData s))))"
    by (simp only: traffic_handleSubmit [OF assms False] requests_concat_pairs)
  also have "\<dots> = map (\<lambda>t. generateTopicPrompt t \<lparr>unitTitle = unitTitle (formData s)\<rparr>)
        (map fst (settle g (formData s) 0 (split_topics (topics (formData s)))))"
    by (simp add: comp_def)
  finally show ?thesis by (simp only: map_fst_settle)
qed

text \<open>
  Claim C9. With an API key and a unit title, and for every text of the topics
  field: the calls of \<open>handleSubmit\<close> are the calls for the fragments of the text
  between its commas, each trimmed, the empty ones left out, in that order. That list
  is the list of the trimmed fragments that are not white space throughout, so a
  fragment that is empty or white space only (before a leading comma, behind a
  trailing one, between two commas) causes no call: the text \<open>a,,b,\<close> gives the calls
  for \<open>a\<close> and \<open>b\<close> and no other.
\<close>

theorem handleSubmit_topics_processed:
  assumes "geminiKey s = Some key" "key \<noteq> []" "unitTitle (formData s) \<noteq> []"
  shows "requests (snd (handleSubmit g s)) =
      map (\<lambda>t. generateTopicPrompt t \<lparr>unitTitle = unitTitle (formData s)\<rparr>)
        (filter (\<lambda>t. t \<noteq> []) (map trim (split_on (CHR '','') (topics (formData s))))) \<and>
    filter (\<lambda>t. t \<noteq> []) (map trim (split_on (CHR '','') (topics (formData s)))) =
      map trim (filter (\<lambda>f. \<not> list_all is_white_space f)
                  (split_on (CHR '','') (topics (formData s))))"
  using requests_handleSubmit [OF assms, of g] split_topics_fragments [of "topics (formData s)"]
  by (simp add: split_topics_def Boolean_def [abs_def])

theorem handleSubmit_topics_processed_witness:
  "split_on (CHR '','') ''a,,b,'' = [''a'', '''', ''b'', ''''] \<and>
   requests (snd (handleSubmit answering
       (example_page\<lparr>formData := \<lparr>unitTitle = ''Graphs'', topics = ''a,,b,''\<rparr>\<rparr>))) =
     [generateTopicPrompt ''a'' \<lparr>unitTitle = ''Graphs''\<rparr>,
      generateTopicPrompt ''b'' \<lparr>unitTitle = ''Graphs''\<rparr>]"
  using handleSubmit_topics_processed
    [of "example_page\<lparr>formData := \<lparr>unitTitle = ''Graphs'', topics = ''a,,b,''\<rparr>\<rparr>" "''key''" answering]
  by (simp add: example_page_def initial_NotesWriter_def trim_def is_white_space_def)

subsection \<open>After a failed call\<close>

lemma sublist_behind: "sublist xs ys \<Longrightarrow> sublist xs (ps @ ys)"
proof -
  assume "sublist xs ys"
  then obtain a b where "ys = a @ xs @ b" unfolding sublist_def by blast
  then have "ps @ ys = (ps @ a) @ xs @ b" by simp
  then show ?thesis unfolding sublist_def by blast
qed

text \<open>
  Claim C3. A failed generation call does not end the run. If the call for a topic
  fails, then for every later topic of the list the call is still made, and if that
  call returns a text, the section of the later topic with that text is part of the
  generated notes and the pair of the two is among the stored topic contents.
\<close>

theorem handleSubmit_continues_after_failure:
  assumes "geminiKey s = Some key" "key \<noteq> []"
    and "unitTitle (formData s) \<noteq> []" "topics (formData s) \<noteq> []"
    and "i < j" "j < length (split_topics (topics (formData s)))"
    and "g i (generateTopicPrompt (split_topics (topics (formData s)) ! i)
               \<lparr>unitTitle = unitTitle (formData s)\<rparr>) = Inl e"
  shows "snd (handleSubmit g s) ! (2 * j) =
      Request (generateTopicPrompt (split_topics (topics (formData s)) ! j)
                 \<lparr>unitTitle = unitTitle (formData s)\<rparr>) \<and>
    (\<forall>c. g j (generateTopicPrompt (split_topics (topics (formData s)) ! j)
                 \<lparr>unitTitle = unitTitle (formData s)\<rparr>) = Inr c \<longrightarrow>
       sublist (''\<newline>\<newline>## '' @ split_topics (topics (formData s)) ! j @ ''\<newline>\<newline>'' @ c)
         (generatedNotes (fst (handleSubmit g s))) \<and>
       \<lparr>topic = split_topics (topics (formData s)) ! j, content = c\<rparr>
         \<in> set (topicContents (fst (handleSubmit g s))))"
proof (intro conjI allI impI)
  let ?ts = "split_topics (topics (formData s))"
  let ?xs = "settle g (formData s) 0 ?ts"
  have guards: "geminiKey s = Some key" "key \<noteq> []"
    "unitTitle (formData s) \<noteq> []" "topics (formData s) \<noteq> []"
    by fact+
  have j: "j < length ?ts" by fact
  then have "j < length ?xs" by (simp add: length_settle)
  from nth_concat_pairs [OF this,
      where A = "\<lambda>t. Request (generateTopicPrompt t \<lparr>unitTitle = unitTitle (formData s)\<rparr>)"
        and B = Settled]
    nth_settle [OF j, of g "formData s" 0]
  show "snd (handleSubmit g s) ! (2 * j) =
      Request (generateTopicPrompt (?ts ! j) \<lparr>unitTitle = unitTitle (formData s)\<rparr>)"
    by (simp add: traffic_handleSubmit [OF guards])
  fix c
  assume "g j (generateTopicPrompt (?ts ! j) \<lparr>unitTitle = unitTitle (formData s)\<rparr>) = Inr c"
  with j have mem: "(?ts ! j, c) \<in> set (successes ?xs)"
    by (intro success_in_successes) simp_all
  from sublist_concat_map [OF mem,
      of "\<lambda>(t, c). ''\<newline>\<newline>## '' @ t @ ''\<newline>\<newline>'' @ c"]
  have "sublist (''\<newline>\<newline>## '' @ ?ts ! j @ ''\<newline>\<newline>'' @ c)
      (concat (map (\<lambda>(t, c). ''\<newline>\<newline>## '' @ t @ ''\<newline>\<newline>'' @ c) (successes ?xs)))"
    by simp
  then show "sublist (''\<newline>\<newline>## '' @ ?ts ! j @ ''\<newline>\<newline>'' @ c)
      (generatedNotes (fst (handleSubmit g s)))"
    unfolding generatedNotes_handleSubmit [OF guards]
    by (simp only: append_assoc [symmetric] sublist_behind)
  from mem have "(\<lambda>(t, c). \<lparr>topic = t, content = c\<rparr>) (?ts ! j, c)
      \<in> (\<lambda>(t, c). \<lparr>topic = t, content = c\<rparr>) ` set (successes ?xs)"
    by (rule imageI)
  then show "\<lparr>topic = ?ts ! j, content = c\<rparr> \<in> set (topicContents (fst (handleSubmit g s)))"
    unfolding topicContents_handleSubmit [OF guards] by (simp only: set_map prod.case)
qed


theorem handleSubmit_continues_after_failure_witness:
  "flaky 0 (generateTopicPrompt ''BFS'' \<lparr>unitTitle = ''Graphs''\<rparr>) = Inl (Error ''overloaded'') \<and>
   flaky 1 (generateTopicPrompt ''DFS'' \<lparr>unitTitle = ''Graphs''\<rparr>) = Inr ''Depth first.'' \<and>
   snd (handleSubmit flaky example_page) ! 2 =
     Request (generateTopicPrompt ''DFS'' \<lparr>unitTitle = ''Graphs''\<rparr>) \<and>
   sublist ''\<newline>\<newline>## DFS\<newline>\<newline>Depth first.'' (generatedNotes (fst (handleSubmit flaky example_page))) \<and>
   \<lparr>topic = ''DFS'', content = ''Depth first.''\<rparr>
     \<in> set (topicContents (fst (handleSubmit flaky example_page)))"
  using handleSubmit_continues_after_failure
    [OF example_page_guards, of 0 1 flaky "Error ''overloaded''"]
  by (simp add: example_page_topics example_page_title flaky_def)

subsection \<open>What is kept of a failed call\<close>

text \<open>
  Claim C4, as the code has it. In a run of \<open>handleSubmit\<close> past its guards every
  failed generation call is reported: the values thrown are written to the console,
  and for each of them one toast is raised, \<open>Invalid API Key\<close> (and the key dialog
  opened) when the message of the error contains \<open>API key\<close> and \<open>Generation Failed\<close>
  otherwise, both in the order of the calls. Next to that stand the results of the
  successful topics: the completed sections and the topic contents hold the topics
  whose call returned and no others, so that every topic occurs in the topics of the
  form as often as it occurs among the completed sections and among the failed topics
  together.
\<close>

theorem handleSubmit_reports_failures:
  assumes "geminiKey s = Some key" "key \<noteq> []"
    and "unitTitle (formData s) \<noteq> []" "topics (formData s) \<noteq> []"
  shows "console (fst (handleSubmit g s)) =
      console s @
      map snd (failures (settle g (formData s) 0 (split_topics (topics (formData s))))) \<and>
    toasts (fst (handleSubmit g s)) =
      toasts s @
      map (\<lambda>(t, e). if includes_str (errorMessage e) ''API key''
                      then toast_invalid_api_key else toast_generation_failed)
        (failures (settle g (formData s) 0 (split_topics (topics (formData s))))) \<and>
    (showApiKeyModal (fst (handleSubmit g s)) \<longleftrightarrow>
       showApiKeyModal s \<or>
       list_ex (\<lambda>(t, e). includes_str (errorMessage e) ''API key'')
         (failures (settle g (formData s) 0 (split_topics (topics (formData s)))))) \<and>
    completedSections (fst (handleSubmit g s)) =
      map fst (successes (settle g (formData s) 0 (split_topics (topics (formData s))))) \<and>
    topicContents (fst (handleSubmit g s)) =
      map (\<lambda>(t, c). \<lparr>topic = t, content = c\<rparr>)
        (successes (settle g (formData s) 0 (split_topics (topics (formData s))))) \<and>
    (\<forall>t. count_list (split_topics (topics (formData (fst (handleSubmit g s))))) t =
          count_list (completedSections (fst (handleSubmit g s))) t +
          count_list
            (map fst (failures (settle g (formData s) 0 (split_topics (topics (formData s))))))
            t)"
proof -
  have "formData (fst (handleSubmit g s)) = formData s"
    by (rule finished_handleSubmit [OF assms])
  with console_handleSubmit [OF assms, of g] toasts_handleSubmit [OF assms, of g]
    showApiKeyModal_handleSubmit [OF assms, of g]
    completedSections_handleSubmit [OF assms, of g] topicContents_handleSubmit [OF assms, of g]
    count_list_settle [of "split_topics (topics (formData s))" _ g "formData s" 0]
  show ?thesis by simp
qed

lemma example_page_logs:
  "console example_page = []" "toasts example_page = []" "\<not> showApiKeyModal example_page"
  by (simp_all add: example_page_def initial_NotesWriter_def)

theorem handleSubmit_reports_failures_witness:
  "failures (settle flaky (formData example_page) 0
     (split_topics (topics (formData example_page)))) = [(''BFS'', Error ''overloaded'')] \<and>
   console (fst (handleSubmit flaky example_page)) = [Error ''overloaded''] \<and>
   toasts (fst (handleSubmit flaky example_page)) = [toast_generation_failed] \<and>
   \<not> showApiKeyModal (fst (handleSubmit flaky example_page)) \<and>
   completedSections (fst (handleSubmit flaky example_page)) = [''DFS''] \<and>
   topicContents (fst (handleSubmit flaky example_page)) =
     [\<lparr>topic = ''DFS'', content = ''Depth first.''\<rparr>] \<and>
   console (fst (handleSubmit rejecting example_page)) =
     [Object_with_message ''API key not valid'', Object_with_message ''API key not valid''] \<and>
   toasts (fst (handleSubmit rejecting example_page)) =
     [toast_invalid_api_key, toast_invalid_api_key] \<and>
   showApiKeyModal (fst (handleSubmit rejecting example_page)) \<and>
   completedSections (fst (handleSubmit rejecting example_page)) = []"
  using handleSubmit_reports_failures [OF example_page_guards, of flaky]
    handleSubmit_reports_failures [OF example_page_guards, of rejecting]
  by (simp add: example_page_topics example_page_title example_page_logs flaky_def
      rejecting_def errorMessage_def)

text \<open>
  Claim C4 as it is written asks that the state after the run records, for every
  topic whose call failed, the failure of that topic. Were the failures recorded
  there, each with its topic, they could be read off the state. They cannot: over the
  topics \<open>DFS, BFS, DFS\<close> one run fails for \<open>BFS\<close> with \<open>overloaded\<close> and then for
  \<open>DFS\<close> with \<open>timed out\<close>, another fails for \<open>DFS\<close> with \<open>overloaded\<close> and then for
  \<open>BFS\<close> with \<open>timed out\<close>, and both leave the same state, toasts and console output
  included.
\<close>

lemma repeated_page_topics:
  "split_topics (topics (formData repeated_page)) = [''DFS'', ''BFS'', ''DFS'']"
  by (simp add: repeated_page_def split_topics_def trim_def is_white_space_def Boolean_def)

lemma repeated_page_guards:
  "geminiKey repeated_page = Some ''key''" "''key'' \<noteq> []"
  "unitTitle (formData repeated_page) \<noteq> []" "topics (formData repeated_page) \<noteq> []"
  by (simp_all add: repeated_page_def example_page_def initial_NotesWriter_def)

theorem handleSubmit_failures_not_recorded:
  "failures (settle failing_late (formData repeated_page) 0
     (split_topics (topics (formData repeated_page)))) =
     [(''BFS'', Error ''overloaded''), (''DFS'', Error ''timed out'')] \<and>
   failures (settle failing_early (formData repeated_page) 0
     (split_topics (topics (formData repeated_page)))) =
     [(''DFS'', Error ''overloaded''), (''BFS'', Error ''timed out'')] \<and>
   fst (handleSubmit failing_late repeated_page) = fst (handleSubmit failing_early repeated_page)"
proof -
  have "fst (handleSubmit failing_late repeated_page) =
      fst (handleSubmit failing_early repeated_page)"
    by (simp add: handleSubmit_run [OF repeated_page_guards] repeated_page_topics Let_def
        failing_late_def failing_early_def catch_generation_error_def errorMessage_def)
  then show ?thesis
    by (simp add: repeated_page_topics failing_late_def failing_early_def)
qed

section \<open>Properties of the form state\<close>

text \<open>In a session that holds nothing yet the notes writer starts from its defaults.\<close>

lemma NotesWriter_load_empty_session:
  "NotesWriter_load key empty_session = initial_NotesWriter key"
  by (simp add: NotesWriter_load_def empty_session_def useSessionStorage_def
      initial_NotesWriter_def)

text \<open>
  Claim C5, as the code has it. The form of the notes writer is kept across a reload
  within the session: what a page load writes with \<open>setFormData\<close> (also through the
  \<open>onChange\<close> handlers of the two inputs) is the form the next load starts with. The
  form of the GitHub profile page is held with \<open>useState\<close> only: the state takes what
  is written, and the next load starts with the empty form again.
\<close>

theorem form_state_across_reload:
  "formData (fst (setFormData fd page)) = fd \<and>
   formData (NotesWriter_load key (snd (setFormData fd page))) = fd \<and>
   formData (NotesWriter_load key (snd (change_unitTitle v page))) =
     (formData (fst page))\<lparr>unitTitle := v\<rparr> \<and>
   formData (NotesWriter_load key (snd (change_topics v page))) =
     (formData (fst page))\<lparr>topics := v\<rparr> \<and>
   profile_formData (fst (profile_setFormData d profile_page)) = d \<and>
   profile_formData (GitHubProfile_load (snd (profile_setFormData d profile_page))) =
     profile_formData (GitHubProfile_load empty_session)"
  by (simp add: setFormData_def NotesWriter_load_def useSessionStorage_def change_unitTitle_def
      change_topics_def profile_setFormData_def GitHubProfile_load_def)

text \<open>
  Claim C5 as it is written has the form of the GitHub profile page persisted, too. It
  is not: a title typed into the page is in its state, and gone after a reload in the
  same session.
\<close>

theorem GitHubProfile_form_lost_on_reload:
  "title (profile_formData
      (fst (change_title ''Hi'' (GitHubProfile_load empty_session, empty_session)))) = ''Hi'' \<and>
   title (profile_formData
      (GitHubProfile_load
         (snd (change_title ''Hi'' (GitHubProfile_load empty_session, empty_session))))) = []"
  by (simp add: change_title_def profile_setFormData_def GitHubProfile_load_def)

section \<open>Properties of the prompt builders\<close>

text \<open>
  Claim C6. The prompt builders are pure. Take two calls of \<open>generateTopicPrompt\<close>
  with the same topic and the same unit title, made in any two worlds: whatever the
  state of the component, the clock, the random numbers and every other expression
  are in the one world and in the other, the two calls return the same string, and
  it is the string that the topic and the unit title alone determine. The same holds
  of two calls of \<open>generatePrompt\<close> with the same form data.
\<close>

theorem prompt_builders_pure:
  fixes c1 :: "'a prompt_context_scheme" and c2 :: "'b prompt_context_scheme"
    and d :: "'c GitHubFormData_scheme"
  shows "(receives_topic w1 t c1 \<and> receives_topic w2 t c2 \<and> unitTitle c1 = unitTitle c2 \<longrightarrow>
            render w1 generateTopicPrompt_body = render w2 generateTopicPrompt_body \<and>
            render w1 generateTopicPrompt_body = generateTopicPrompt t c1) \<and>
         (receives_data w1 d \<and> receives_data w2 d \<longrightarrow>
            render w1 generatePrompt_body = render w2 generatePrompt_body \<and>
            render w1 generatePrompt_body = generatePrompt d)"
  by (simp add: receives_topic_def receives_data_def generateTopicPrompt_body_def
      generatePrompt_body_def generateTopicPrompt_def generatePrompt_def)

theorem prompt_builders_pure_witness:
  "receives_topic (example_world ''morning'') ''BFS'' (formData example_page) \<and>
   receives_topic (example_world ''evening'') ''BFS'' \<lparr>unitTitle = ''Graphs''\<rparr> \<and>
   example_world ''morning'' (Call (Member (Ident ''Date'') ''now'') []) \<noteq>
     example_world ''evening'' (Call (Member (Ident ''Date'') ''now'') []) \<and>
   example_world ''morning'' (Member (Ident ''formData'') ''topics'') \<noteq>
     example_world ''evening'' (Member (Ident ''formData'') ''topics'') \<and>
   render (example_world ''morning'') generateTopicPrompt_body =
     render (example_world ''evening'') generateTopicPrompt_body \<and>
   render (example_world ''morning'') generateTopicPrompt_body =
     generateTopicPrompt ''BFS'' (formData example_page) \<and>
   receives_data (example_world ''morning'') example_profile \<and>
   receives_data (example_world ''evening'') example_profile \<and>
   render (example_world ''morning'') generatePrompt_body =
     render (example_world ''evening'') generatePrompt_body \<and>
   render (example_world ''morning'') generatePrompt_body = generatePrompt example_profile"
proof -
  have topic: "receives_topic (example_world rest) ''BFS'' (formData example_page)"
    "receives_topic (example_world rest) ''BFS'' \<lparr>unitTitle = ''Graphs''\<rparr>" for rest
    by (simp_all add: receives_topic_def example_world_def example_page_title)
  have data: "receives_data (example_world rest) example_profile" for rest
    by (simp add: receives_data_def example_world_def)
  have other: "example_world rest (Call (Member (Ident ''Date'') ''now'') []) = rest"
    "example_world rest (Member (Ident ''formData'') ''topics'') = rest" for rest
    by (simp_all add: example_world_def)
  have title: "unitTitle (formData example_page) = unitTitle \<lparr>unitTitle = ''Graphs''\<rparr>"
    by (simp add: example_page_title)
  note pure = prompt_builders_pure
    [of "example_world ''morning''" "''BFS''" "formData example_page"
        "example_world ''evening''" "\<lparr>unitTitle = ''Graphs''\<rparr>" example_profile]
  from pure topic(1) [of "''morning''"] topic(2) [of "''evening''"] title
  have topic_same:
    "render (example_world ''morning'') generateTopicPrompt_body =
       render (example_world ''evening'') generateTopicPrompt_body"
    and topic_value:
    "render (example_world ''morning'') generateTopicPrompt_body =
       generateTopicPrompt ''BFS'' (formData example_page)"
    by blast+
  from pure data [of "''morning''"] data [of "''evening''"]
  have data_same:
    "render (example_world ''morning'') generatePrompt_body =
       render (example_world ''evening'') generatePrompt_body"
    and data_value:
    "render (example_world ''morning'') generatePrompt_body = generatePrompt example_profile"
    by blast+
  show ?thesis
    by (intro conjI)
       (rule topic data topic_same topic_value data_same data_value | simp add: other)+
qed

text \<open>
  A body that reads anything else does not have the property: a literal with the
  one hole \<open>${Date.now()}\<close> gives different strings in the two worlds above.
\<close>

lemma other_body_not_pure:
  "render (example_world ''morning'') [Hole (Call (Member (Ident ''Date'') ''now'') [])] \<noteq>
   render (example_world ''evening'') [Hole (Call (Member (Ident ''Date'') ''now'') [])]"
  by (simp add: example_world_def)

section \<open>Properties of the preview\<close>

subsection \<open>The literal of the notes, read back\<close>

lemma hex_digits_read_back: "list_all (\<lambda>n. hex_value (hex_digit n) = Some n) [0..<16]"
  by code_simp

lemma hex_value_hex_digit: "n < 16 \<Longrightarrow> hex_value (hex_digit n) = Some n"
  using hex_digits_read_back by (simp add: list_all_iff)

lemma unescape_unicode:
  assumes "(of_char c :: nat) < 32"
  shows "unescape (CHR ''u'')
           (CHR ''0'' # CHR ''0'' # hex_digit (of_char c div 16) # hex_digit (of_char c mod 16) # tail) =
         Some (c, 4)"
proof -
  have "of_char c div 16 < (16 :: nat)" using assms by simp
  then have hi: "hex_value (hex_digit (of_char c div 16)) = Some (of_char c div 16)"
    by (rule hex_value_hex_digit)
  have lo: "hex_value (hex_digit (of_char c mod 16)) = Some (of_char c mod 16)"
    by (rule hex_value_hex_digit) simp
  have zero: "hex_value (CHR ''0'') = Some 0"
    by (simp add: hex_value_def)
  show ?thesis
    by (simp add: unescape_def hi lo zero)
qed

lemma read_QuoteJSONChar:
  "read_string_characters (QuoteJSONChar c @ tail) =
     (case read_string_characters tail of
        None \<Rightarrow> None
      | Some (value', behind) \<Rightarrow> Some (c # value', behind))"
proof -
  consider (short) "c \<in> set [CHR 0x08, CHR 0x09, CHR 0x0A, CHR 0x0C, CHR 0x0D]"
    | (quote) "c = CHR 0x22" | (backslash) "c = CHR 0x5C"
    | (control) "(of_char c :: nat) < 32"
        "c \<notin> set [CHR 0x08, CHR 0x09, CHR 0x0A, CHR 0x0C, CHR 0x0D]"
    | (plain) "\<not> (of_char c :: nat) < 32" "c \<noteq> CHR 0x22" "c \<noteq> CHR 0x5C"
    by blast
  then show ?thesis
  proof cases
    case short
    then show ?thesis
      by (auto simp: QuoteJSONChar_def unescape_def)
  next
    case quote
    then show ?thesis
      by (auto simp: QuoteJSONChar_def unescape_def)
  next
    case backslash
    then show ?thesis
      by (auto simp: QuoteJSONChar_def unescape_def)
  next
    case control
    then have "c \<noteq> CHR 0x5C" "c \<noteq> CHR 0x22" by auto
    with control show ?thesis
      by (simp add: QuoteJSONChar_def unescape_unicode)
  next
    case plain
    then have "c \<notin> set [CHR 0x08, CHR 0x09, CHR 0x0A, CHR 0x0C, CHR 0x0D]" by auto
    with plain show ?thesis
      by (simp add: QuoteJSONChar_def)
  qed
qed

lemma read_quoted:
  "read_string_characters (concat (map QuoteJSONChar s) @ CHR 0x22 # rest) = Some (s, rest)"
  by (induction s) (simp_all add: read_QuoteJSONChar)

lemma read_JSON_stringify: "read_string_literal (JSON_stringify s @ rest) = Some (s, rest)"
  by (simp add: read_string_literal_def JSON_stringify_def read_quoted)

lemma markdownContent_inline_script: "markdownContent (inline_script s) = Some (generatedNotes s)"
  by (simp add: markdownContent_def inline_script_def read_JSON_stringify)


lemma script_end_tag_at_Cons:
  "script_end_tag_at (c # cs) \<Longrightarrow> c = CHR ''<''"
  by (auto simp: script_end_tag_at_def take_Cons' list_all2_Cons1)

lemma script_data_append:
  "CHR ''<'' \<notin> set a \<Longrightarrow> script_data (a @ b) = a @ script_data b"
  by (induction a) (auto dest: script_end_tag_at_Cons)

lemma script_before_no_tag: "CHR ''<'' \<notin> set script_before"
  by (simp add: script_before_def)

lemma script_data_notes:
  "script_data (JSON_stringify script_notes @ rest) =
     [CHR 0x22] @ ''# Web'' @ [CHR 0x5C] @ ''n'' @ [CHR 0x5C] @ ''n'' @ [CHR 0x5C] @ ''n## Scripts'' @
     [CHR 0x5C] @ ''n'' @ [CHR 0x5C] @ ''nClose the element with ''"
  by (simp add: JSON_stringify_def script_notes_def QuoteJSONChar_def script_end_tag_at_def)

lemma preview_has_controls:
  assumes "handlePreviewInNewTab True s = Some document"
  shows "sublist copy_button document \<and> sublist print_button document"
proof -
  let ?title = "if Boolean (unitTitle (formData s)) then unitTitle (formData s)
                else ''Study Notes Preview''"
  let ?tail = "control_bar_close @ preview_content @ inline_script s @ preview_end"
  from assms have "document =
      (preview_head @ ?title @ preview_style @ control_bar_open) @ copy_button @
      (control_bar_between @ print_button @ ?tail)"
    by (simp add: handlePreviewInNewTab_def preview_before_script_def)
  moreover from assms have "document =
      (preview_head @ ?title @ preview_style @ control_bar_open @ copy_button @
       control_bar_between) @ print_button @ ?tail"
    by (simp add: handlePreviewInNewTab_def preview_before_script_def)
  ultimately show ?thesis
    unfolding sublist_def by blast
qed

subsection \<open>Notes that close the script\<close>

text \<open>Such notes are what a run stores when the service quotes the closing tag.\<close>

lemma script_notes_generated: "generatedNotes (fst (handleSubmit explaining web_page)) = script_notes"
proof -
  have guards: "geminiKey web_page = Some ''key''" "''key'' \<noteq> []"
    "unitTitle (formData web_page) \<noteq> []" "topics (formData web_page) \<noteq> []"
    by (simp_all add: web_page_def example_page_def initial_NotesWriter_def)
  have "split_topics (topics (formData web_page)) = [''Scripts'']"
    by (simp add: web_page_def split_topics_def trim_def is_white_space_def Boolean_def)
  moreover have "unitTitle (formData web_page) = ''Web''"
    by (simp add: web_page_def)
  ultimately show ?thesis
    by (simp add: generatedNotes_handleSubmit [OF guards] explaining_def script_notes_def)
qed

text \<open>
  Claim C7 at notes that contain \<open></script>\<close>. \<open>JSON.stringify\<close> leaves these
  characters as they are, so in the document written to the new window the script
  element ends inside the literal: its text stops in front of the \<open></script>\<close> of the
  notes, the literal has no closing quote, and the script gives \<open>markdownContent\<close> no
  value. The notes are not recovered in the preview.
\<close>

theorem preview_script_cut_short:
  "generatedNotes (example_page\<lparr>generatedNotes := script_notes\<rparr>) = script_notes \<and>
   handlePreviewInNewTab True (example_page\<lparr>generatedNotes := script_notes\<rparr>) =
     Some (preview_before_script (example_page\<lparr>generatedNotes := script_notes\<rparr>) @
           inline_script (example_page\<lparr>generatedNotes := script_notes\<rparr>) @ preview_end) \<and>
   script_data (inline_script (example_page\<lparr>generatedNotes := script_notes\<rparr>) @ preview_end) =
     script_before @ [CHR 0x22] @ ''# Web'' @ [CHR 0x5C] @ ''n'' @ [CHR 0x5C] @ ''n'' @ [CHR 0x5C] @
     ''n## Scripts'' @ [CHR 0x5C] @ ''n'' @ [CHR 0x5C] @ ''nClose the element with '' \<and>
   markdownContent
     (script_data (inline_script (example_page\<lparr>generatedNotes := script_notes\<rparr>) @ preview_end)) =
     None"
proof -
  let ?page = "example_page\<lparr>generatedNotes := script_notes\<rparr>"
  have cut: "script_data (inline_script ?page @ preview_end) =
     script_before @ [CHR 0x22] @ ''# Web'' @ [CHR 0x5C] @ ''n'' @ [CHR 0x5C] @ ''n'' @ [CHR 0x5C] @
     ''n## Scripts'' @ [CHR 0x5C] @ ''n'' @ [CHR 0x5C] @ ''nClose the element with ''"
    by (simp add: inline_script_def script_data_append [OF script_before_no_tag] script_data_notes)
  have "markdownContent (script_data (inline_script ?page @ preview_end)) = None"
    unfolding cut by (simp add: markdownContent_def read_string_literal_def unescape_def)
  with cut show ?thesis by (simp add: handlePreviewInNewTab_def)
qed

end
